theory Spec2Isabelle
  imports Complex_Main "HOL-Library.AList" "HOL-Library.Log_Nat"
begin

section \<open>JSON values and the Python operations main.py applies to them\<close>

text \<open>
  Every value main.py handles comes out of \<^verbatim>\<open>json.load\<close> or \<^verbatim>\<open>response.json()\<close>, or is built
  from such values with dict and list displays. A dict is an association list in insertion
  order; lookups read the first binding of a key. No handler computes with a number, only
  its truthiness and its equality as a dict key are read, so numbers are integers here.
  A str is a list of bytes (UTF-8).
\<close>

datatype json =
    JNull
  | JBool bool
  | JNum int
  | JStr string
  | JArr "json list"
  | JObj "(string \<times> json) list"

datatype py_error =
    AttributeError
  | KeyError
  | TypeError
  | JSONDecodeError
  | RequestException
  | ValidationError

text \<open>
  \<open>ValidationError\<close> stands for every way the framework refuses a request body before the
  handler runs: the 422 answer of a failed validation, or an exception raised while a
  value is converted.
\<close>

text \<open>Sequencing of steps that may raise: the first exception ends the computation.\<close>

fun andThen :: "'e + 'a \<Rightarrow> ('a \<Rightarrow> 'e + 'b) \<Rightarrow> 'e + 'b" where
  "andThen (Inl e) f = Inl e"
| "andThen (Inr x) f = f x"

text \<open>A comprehension or for loop whose body may raise: left to right, stopping at the first exception.\<close>

fun for_each :: "('a \<Rightarrow> 'e + 'b) \<Rightarrow> 'a list \<Rightarrow> 'e + 'b list" where
  "for_each f [] = Inr []"
| "for_each f (x # xs) = andThen (f x) (\<lambda>y. andThen (for_each f xs) (\<lambda>ys. Inr (y # ys)))"

text \<open>\<^verbatim>\<open>bool(v)\<close>: None, False, 0, the empty str, list and dict are falsy.\<close>

fun truthy :: "json \<Rightarrow> bool" where
  "truthy JNull = False"
| "truthy (JBool b) = b"
| "truthy (JNum n) = (n \<noteq> 0)"
| "truthy (JStr s) = (s \<noteq> [])"
| "truthy (JArr xs) = (xs \<noteq> [])"
| "truthy (JObj kvs) = (kvs \<noteq> [])"

text \<open>\<^verbatim>\<open>a or b\<close>\<close>

definition py_or :: "json \<Rightarrow> json \<Rightarrow> json" where
  "py_or a b = (if truthy a then a else b)"

text \<open>\<^verbatim>\<open>d.get(k, default)\<close>: only a dict has the method.\<close>

fun py_get :: "json \<Rightarrow> string \<Rightarrow> json \<Rightarrow> py_error + json" where
  "py_get (JObj kvs) k dflt = Inr (case map_of kvs k of None \<Rightarrow> dflt | Some v \<Rightarrow> v)"
| "py_get _ k dflt = Inl AttributeError"

text \<open>\<^verbatim>\<open>d[k]\<close> with a str \<open>k\<close>: KeyError on a dict without the key, TypeError on anything else.\<close>

fun py_getitem :: "json \<Rightarrow> string \<Rightarrow> py_error + json" where
  "py_getitem (JObj kvs) k = (case map_of kvs k of None \<Rightarrow> Inl KeyError | Some v \<Rightarrow> Inr v)"
| "py_getitem _ k = Inl TypeError"

text \<open>\<^verbatim>\<open>d[k] = v\<close> with a str \<open>k\<close>: an existing key keeps its place, a new one goes last.\<close>

fun py_setitem :: "json \<Rightarrow> string \<Rightarrow> json \<Rightarrow> py_error + json" where
  "py_setitem (JObj kvs) k v = Inr (JObj (AList.update k v kvs))"
| "py_setitem _ k v = Inl TypeError"

fun is_substring :: "string \<Rightarrow> string \<Rightarrow> bool" where
  "is_substring k [] = (k = [])"
| "is_substring k (c # cs) = (take (length k) (c # cs) = k \<or> is_substring k cs)"

text \<open>\<^verbatim>\<open>k in d\<close> with a str \<open>k\<close>: a key of a dict, an element of a list, a substring of a str.\<close>

fun py_contains :: "string \<Rightarrow> json \<Rightarrow> py_error + bool" where
  "py_contains k (JObj kvs) = Inr (k \<in> set (map fst kvs))"
| "py_contains k (JArr xs) = Inr (JStr k \<in> set xs)"
| "py_contains k (JStr s) = Inr (is_substring k s)"
| "py_contains k _ = Inl TypeError"

text \<open>
  \<^verbatim>\<open>for x in v\<close>: the elements of a list, the keys of a dict, the one-character strings of
  a str (split at bytes here; every loop of main.py raises on the first str element, so the
  number of elements a non-empty str yields is never observed).
\<close>

fun py_iter :: "json \<Rightarrow> py_error + json list" where
  "py_iter (JArr xs) = Inr xs"
| "py_iter (JObj kvs) = Inr (map (\<lambda>kv. JStr (fst kv)) kvs)"
| "py_iter (JStr s) = Inr (map (\<lambda>c. JStr [c]) s)"
| "py_iter _ = Inl TypeError"

text \<open>
  A key of a Python dict: lists and dicts are unhashable (TypeError); \<^verbatim>\<open>True == 1\<close> and
  \<^verbatim>\<open>False == 0\<close> are the same key, so a bool is stored as its number.
\<close>

fun hash_key :: "json \<Rightarrow> py_error + json" where
  "hash_key (JArr xs) = Inl TypeError"
| "hash_key (JObj kvs) = Inl TypeError"
| "hash_key (JBool b) = Inr (JNum (if b then 1 else 0))"
| "hash_key v = Inr v"

text \<open>\<^verbatim>\<open>m.get(k, default)\<close> on a dict keyed by JSON values.\<close>

definition dict_get :: "(json \<times> json) list \<Rightarrow> json \<Rightarrow> json \<Rightarrow> py_error + json" where
  "dict_get m k dflt =
     andThen (hash_key k) (\<lambda>h. Inr (case map_of m h of None \<Rightarrow> dflt | Some v \<Rightarrow> v))"

section \<open>Python floats\<close>

text \<open>
  A float is an IEEE double: a finite value (given by the rational it denotes), an infinity
  or NaN.
\<close>

datatype pyfloat = Finite rat | PosInf | NegInf | NaN

text \<open>\<^verbatim>\<open>int.bit_length\<close> of a natural number.\<close>

fun bit_length :: "nat \<Rightarrow> nat" where
  "bit_length n = (if n = 0 then 0 else Suc (bit_length (n div 2)))"

text \<open>
  A natural number rounded to \<open>p\<close> significant bits, to nearest with ties to even: below
  \<open>2 ^ p\<close> it is exact; otherwise the bits beyond the leading \<open>p\<close> are cut off and the
  kept part is rounded up when the cut-off part is more than half a unit, or exactly half
  with an odd kept part.
\<close>

definition round_to_bits :: "nat \<Rightarrow> nat \<Rightarrow> nat" where
  "round_to_bits p a =
     (if a < 2 ^ p then a
      else let shift = bit_length a - p;
               q = a div 2 ^ shift;
               r = a mod 2 ^ shift
           in (if 2 ^ shift < 2 * r \<or> (2 * r = 2 ^ shift \<and> odd q) then q + 1 else q) * 2 ^ shift)"

text \<open>
  \<^verbatim>\<open>float(n)\<close> for an int \<open>n\<close>: the nearest double (53 significant bits), and no value
  (\<^verbatim>\<open>OverflowError\<close>) when that is \<open>2 ^ 1024\<close> or more in magnitude.
\<close>

definition py_float :: "int \<Rightarrow> pyfloat option" where
  "py_float n =
     (let a = round_to_bits 53 (nat \<bar>n\<bar>)
      in if 2 ^ 1024 \<le> a then None else Some (Finite (of_int (sgn n * int a))))"

section \<open>The request schema of POST /create-invoice\<close>

text \<open>The pydantic models of lines 238 to 248, as the values a validated request holds.\<close>

record InvoiceLineDetail =
  Amount :: pyfloat
  DetailType :: string
  SalesItemLineDetail :: "(string \<times> json) list option"

record InvoiceCreateModel =
  CustomerRef :: "(string \<times> json) list"
  Line :: "InvoiceLineDetail list"
  BillEmail :: "(string \<times> json) list option"
  TxnDate :: "string option"
  DueDate :: "string option"

section \<open>Strings built by formatting, requests and responses\<close>

text \<open>
  An f-string is kept as its parts: the literal pieces, \<^verbatim>\<open>str(v)\<close> of each interpolated
  value, and the base64 encoding of a formatted string. main.py hands these strings to
  \<^verbatim>\<open>requests\<close> and never inspects them.
\<close>

datatype fpart =
    Lit string
  | Str json
  | B64 "fpart list"

type_synonym fstring = "fpart list"

section \<open>Environment, token file and the outside world\<close>

record env =
  CLIENT_ID :: "string option"
  CLIENT_SECRET :: "string option"
  REDIRECT_URI :: "string option"
  QBO_BASE :: "string option"
  COMPANY_ID :: "string option"
  REFRESH_TOKEN :: "string option"

text \<open>\<^verbatim>\<open>os.getenv\<close> gives None for an unset variable.\<close>

fun getenv :: "string option \<Rightarrow> json" where
  "getenv None = JNull"
| "getenv (Some s) = JStr s"

text \<open>
  What \<^verbatim>\<open>json.load\<close> makes of a file: the value it parses to, or a decode error.
  \<^verbatim>\<open>json.dump\<close> of a JSON value writes a text that parses back to that value.
\<close>

datatype file_content =
    JsonText json
  | Garbled

datatype http_method = GET | POST

text \<open>The keyword argument that carries the body: none, \<^verbatim>\<open>data=\<close> a str, \<^verbatim>\<open>data=\<close> a dict,
  \<^verbatim>\<open>json=\<close> the \<^verbatim>\<open>dict(exclude_none=True)\<close> of a validated model.\<close>

datatype payload =
    NoBody
  | Data string
  | Form "(string \<times> string) list"
  | JsonOf InvoiceCreateModel

record request =
  req_method :: http_method
  url :: fstring
  req_headers :: "(string \<times> fstring) list"
  body :: payload

text \<open>
  A \<^verbatim>\<open>requests.Response\<close>: \<open>resp_text\<close> is \<^verbatim>\<open>response.text\<close>, \<open>resp_json\<close> is what
  \<^verbatim>\<open>response.json()\<close> parses the body to, or None when the body is not JSON.
\<close>

record response =
  status_code :: int
  resp_text :: string
  resp_json :: "json option"

definition response_json :: "response \<Rightarrow> py_error + json" where
  "response_json r = (case resp_json r of None \<Rightarrow> Inl JSONDecodeError | Some j \<Rightarrow> Inr j)"

text \<open>
  The state a handler runs in: the process environment, the files of the working directory,
  the remote services (the answer to each request, or the exception \<^verbatim>\<open>requests\<close> raises),
  and the list of requests sent so far.
\<close>

record world =
  environ :: env
  files :: "string \<rightharpoonup> file_content"
  net :: "request \<Rightarrow> py_error + response"
  sent :: "request list"

definition requests_send :: "request \<Rightarrow> world \<Rightarrow> (py_error + response) \<times> world" where
  "requests_send req w = (net w req, w\<lparr>sent := sent w @ [req]\<rparr>)"

section \<open>Token store\<close>

definition TOKENS_FILE :: string where
  "TOKENS_FILE = ''tokens.json''"

definition save_tokens :: "json \<Rightarrow> world \<Rightarrow> world" where
  "save_tokens tokens w = w\<lparr>files := (files w)(TOKENS_FILE \<mapsto> JsonText tokens)\<rparr>"

definition load_tokens :: "world \<Rightarrow> py_error + json" where
  "load_tokens w =
     (case files w TOKENS_FILE of
        None \<Rightarrow> Inr (JObj [])
      | Some (JsonText j) \<Rightarrow> Inr j
      | Some Garbled \<Rightarrow> Inl JSONDecodeError)"

section \<open>QuickBooksClient\<close>

record QuickBooksClient =
  access_token :: json
  realm_id :: json
  base_url :: string

text \<open>\<^verbatim>\<open>QuickBooksClient.__init__\<close>\<close>

definition QuickBooksClient_init :: "json \<Rightarrow> json \<Rightarrow> QuickBooksClient" where
  "QuickBooksClient_init tok realm =
     \<lparr>access_token = tok, realm_id = realm,
      base_url = ''https://sandbox-quickbooks.api.intuit.com/v3/company''\<rparr>"

definition headers :: "QuickBooksClient \<Rightarrow> string \<Rightarrow> (string \<times> fstring) list" where
  "headers qb accept =
     [(''Authorization'', [Lit ''Bearer '', Str (access_token qb)]),
      (''Content-Type'', [Lit ''application/text'']),
      (''Accept'', [Lit accept])]"

definition query_request :: "QuickBooksClient \<Rightarrow> string \<Rightarrow> request" where
  "query_request qb query_str =
     \<lparr>req_method = POST,
      url = [Lit (base_url qb), Lit ''/'', Str (realm_id qb), Lit ''/query''],
      req_headers = headers qb ''application/json'',
      body = Data query_str\<rparr>"

definition query :: "QuickBooksClient \<Rightarrow> string \<Rightarrow> world \<Rightarrow> (py_error + response) \<times> world" where
  "query qb query_str w = requests_send (query_request qb query_str) w"

definition company_info_request :: "QuickBooksClient \<Rightarrow> request" where
  "company_info_request qb =
     \<lparr>req_method = GET,
      url = [Lit (base_url qb), Lit ''/'', Str (realm_id qb), Lit ''/companyinfo/'', Str (realm_id qb)],
      req_headers = headers qb ''application/json'',
      body = NoBody\<rparr>"

definition get_company_info :: "QuickBooksClient \<Rightarrow> world \<Rightarrow> (py_error + response) \<times> world" where
  "get_company_info qb w = requests_send (company_info_request qb) w"

definition get_qb_client :: "world \<Rightarrow> py_error + QuickBooksClient option" where
  "get_qb_client w =
     andThen (load_tokens w) (\<lambda>tokens.
     andThen (py_get tokens ''access_token'' JNull) (\<lambda>tok.
     andThen (py_get tokens ''realmId'' JNull) (\<lambda>rid.
       let realm = py_or rid (getenv (COMPANY_ID (environ w))) in
       if \<not> truthy tok \<or> \<not> truthy realm then Inr None
       else Inr (Some (QuickBooksClient_init tok realm)))))"

section \<open>Handlers\<close>

text \<open>The message of a handler that got no client; the u of "asegurate" carries an acute accent.\<close>

definition not_authenticated :: json where
  "not_authenticated =
     JObj [(''error'', JStr (''No autenticado. Usa /connect y aseg'' @ [CHR 0xC3, CHR 0xBA]
                              @ ''rate de tener realmId''))]"

definition error_body :: "response \<Rightarrow> json" where
  "error_body r = JObj [(''error'', JStr (resp_text r))]"

subsection \<open>GET /customer-info\<close>

definition customer_info :: "world \<Rightarrow> (py_error + json) \<times> world" where
  "customer_info w =
     (case get_qb_client w of
        Inl e \<Rightarrow> (Inl e, w)
      | Inr None \<Rightarrow> (Inr not_authenticated, w)
      | Inr (Some qb) \<Rightarrow>
          (case get_company_info qb w of
             (Inl e, w') \<Rightarrow> (Inl e, w')
           | (Inr r, w') \<Rightarrow>
               (andThen (if status_code r = 200 then response_json r else Inr (JStr (resp_text r)))
                  (\<lambda>d. Inr (JObj [(''status_code'', JNum (status_code r)), (''data'', d)])), w')))"

subsection \<open>GET /refresh\<close>

definition token_request :: "env \<Rightarrow> string \<Rightarrow> request" where
  "token_request e refresh_token =
     \<lparr>req_method = POST,
      url = [Lit ''https://oauth.platform.intuit.com/oauth2/v1/tokens/bearer''],
      req_headers =
        [(''Accept'', [Lit ''application/json'']),
         (''Content-Type'', [Lit ''application/x-www-form-urlencoded'']),
         (''Authorization'',
            [Lit ''Basic '', B64 [Str (getenv (CLIENT_ID e)), Lit '':'', Str (getenv (CLIENT_SECRET e))]])],
      body = Form [(''grant_type'', ''refresh_token''), (''refresh_token'', refresh_token)]\<rparr>"

text \<open>Lines 112 to 118: the new tokens take over the stored realmId, are saved and returned.\<close>

definition merge_and_save :: "json \<Rightarrow> world \<Rightarrow> (py_error + json) \<times> world" where
  "merge_and_save tokens w =
     (case andThen (load_tokens w) (\<lambda>old_tokens.
           andThen (py_contains ''realmId'' old_tokens) (\<lambda>has.
             if has
             then andThen (py_getitem old_tokens ''realmId'') (\<lambda>v. py_setitem tokens ''realmId'' v)
             else Inr tokens)) of
        Inl e \<Rightarrow> (Inl e, w)
      | Inr tokens' \<Rightarrow>
          (Inr (JObj [(''success'', JBool True), (''tokens'', tokens')]), save_tokens tokens' w))"

definition no_refresh_token :: json where
  "no_refresh_token = JObj [(''error'', JStr ''No hay refresh_token en el entorno'')]"

definition refresh_access_token :: "world \<Rightarrow> (py_error + json) \<times> world" where
  "refresh_access_token w =
     (case REFRESH_TOKEN (environ w) of
        None \<Rightarrow> (Inr no_refresh_token, w)
      | Some refresh_token \<Rightarrow>
          if \<not> truthy (JStr refresh_token) then (Inr no_refresh_token, w)
          else
            (case requests_send (token_request (environ w) refresh_token) w of
               (Inl e, w') \<Rightarrow> (Inl e, w')
             | (Inr r, w') \<Rightarrow>
                 if status_code r \<noteq> 200 then (Inr (error_body r), w')
                 else (case response_json r of
                         Inl e \<Rightarrow> (Inl e, w')
                       | Inr tokens \<Rightarrow> merge_and_save tokens w')))"

subsection \<open>GET /customers, /invoices, /inventory\<close>

text \<open>\<^verbatim>\<open>response.json().get("QueryResponse", {}).get(entity, [])\<close>\<close>

definition query_response :: "response \<Rightarrow> string \<Rightarrow> py_error + json" where
  "query_response r entity =
     andThen (response_json r) (\<lambda>data.
     andThen (py_get data ''QueryResponse'' (JObj [])) (\<lambda>qr.
       py_get qr entity (JArr [])))"

text \<open>The dict display \<^verbatim>\<open>{k1: rec.get(k1), k2: rec.get(k2), ...}\<close>, evaluated left to right.\<close>

definition extract_fields :: "string list \<Rightarrow> json \<Rightarrow> py_error + json" where
  "extract_fields keys rec =
     andThen (for_each (\<lambda>k. andThen (py_get rec k JNull) (\<lambda>v. Inr (k, v))) keys)
       (\<lambda>kvs. Inr (JObj kvs))"

definition customer_keys :: "string list" where
  "customer_keys =
     [''Id'', ''DisplayName'', ''PrimaryEmailAddr'', ''PrimaryPhone'', ''CompanyName'', ''Balance'']"

definition invoice_keys :: "string list" where
  "invoice_keys =
     [''Id'', ''DocNumber'', ''CustomerRef'', ''BillEmail'', ''TxnDate'', ''DueDate'', ''Line'',
      ''TxnTaxDetail'', ''TotalAmt'', ''Balance'']"

definition item_keys :: "string list" where
  "item_keys = [''Id'', ''Name'', ''Sku'', ''QtyOnHand'', ''UnitPrice'', ''Type'', ''Active'']"

definition extract_customer_fields :: "json \<Rightarrow> py_error + json" where
  "extract_customer_fields cust = extract_fields customer_keys cust"

definition extract_invoice_fields :: "json \<Rightarrow> py_error + json" where
  "extract_invoice_fields invoice = extract_fields invoice_keys invoice"

definition extract_item_fields :: "json \<Rightarrow> py_error + json" where
  "extract_item_fields item = extract_fields item_keys item"

text \<open>The list comprehension over the queried records, wrapped under the handler's key.\<close>

definition filtered :: "string \<Rightarrow> (json \<Rightarrow> py_error + json) \<Rightarrow> json \<Rightarrow> py_error + json" where
  "filtered out_key extract records =
     andThen (py_iter records) (\<lambda>recs.
     andThen (for_each extract recs) (\<lambda>outs.
       Inr (JObj [(out_key, JArr outs)])))"

definition get_customers :: "world \<Rightarrow> (py_error + json) \<times> world" where
  "get_customers w =
     (case get_qb_client w of
        Inl e \<Rightarrow> (Inl e, w)
      | Inr None \<Rightarrow> (Inr not_authenticated, w)
      | Inr (Some qb) \<Rightarrow>
          (case query qb ''SELECT * FROM Customer'' w of
             (Inl e, w') \<Rightarrow> (Inl e, w')
           | (Inr r, w') \<Rightarrow>
               if status_code r \<noteq> 200 then (Inr (error_body r), w')
               else (andThen (query_response r ''Customer'')
                       (filtered ''customers'' extract_customer_fields), w')))"

definition get_invoices :: "world \<Rightarrow> (py_error + json) \<times> world" where
  "get_invoices w =
     (case get_qb_client w of
        Inl e \<Rightarrow> (Inl e, w)
      | Inr None \<Rightarrow> (Inr not_authenticated, w)
      | Inr (Some qb) \<Rightarrow>
          (case query qb ''SELECT * FROM Invoice'' w of
             (Inl e, w') \<Rightarrow> (Inl e, w')
           | (Inr r, w') \<Rightarrow>
               if status_code r \<noteq> 200 then (Inr (error_body r), w')
               else (andThen (query_response r ''Invoice'')
                       (filtered ''invoices'' extract_invoice_fields), w')))"

text \<open>The query of /inventory; \<open>CHR 0x27\<close> is the single quote.\<close>

definition inventory_query :: string where
  "inventory_query = ''SELECT * FROM Item WHERE Type = '' @ [CHR 0x27] @ ''Inventory'' @ [CHR 0x27]"

definition get_inventory :: "world \<Rightarrow> (py_error + json) \<times> world" where
  "get_inventory w =
     (case get_qb_client w of
        Inl e \<Rightarrow> (Inl e, w)
      | Inr None \<Rightarrow> (Inr not_authenticated, w)
      | Inr (Some qb) \<Rightarrow>
          (case query qb inventory_query w of
             (Inl e, w') \<Rightarrow> (Inl e, w')
           | (Inr r, w') \<Rightarrow>
               if status_code r \<noteq> 200 then (Inr (error_body r), w')
               else (andThen (query_response r ''Item'')
                       (filtered ''inventory'' extract_item_fields), w')))"

subsection \<open>GET /customer-invoices\<close>

text \<open>\<^verbatim>\<open>{c["Id"]: c for c in customers}\<close>: a later customer with the same Id replaces the earlier one.\<close>

fun customer_map_from :: "json list \<Rightarrow> (json \<times> json) list \<Rightarrow> py_error + (json \<times> json) list" where
  "customer_map_from [] m = Inr m"
| "customer_map_from (c # cs) m =
     andThen (py_getitem c ''Id'') (\<lambda>k.
     andThen (hash_key k) (\<lambda>h.
       customer_map_from cs (AList.update h c m)))"

text \<open>\<^verbatim>\<open>k in inv and inv[k]\<close> as the condition of an if.\<close>

definition present :: "string \<Rightarrow> json \<Rightarrow> py_error + bool" where
  "present k invoice =
     andThen (py_contains k invoice) (\<lambda>has.
       if has then andThen (py_getitem invoice k) (\<lambda>v. Inr (truthy v)) else Inr False)"

text \<open>Lines 208 to 214.\<close>

definition location_of_sale :: "json \<Rightarrow> py_error + json" where
  "location_of_sale invoice =
     andThen (present ''ShipAddr'' invoice) (\<lambda>ship.
       if ship then andThen (py_getitem invoice ''ShipAddr'') (\<lambda>a. py_get a ''City'' JNull)
       else andThen (present ''LocationRef'' invoice) (\<lambda>loc.
         if loc then andThen (py_getitem invoice ''LocationRef'') (\<lambda>a. py_get a ''name'' JNull)
         else andThen (present ''SalesTermRef'' invoice) (\<lambda>terms.
           if terms then andThen (py_getitem invoice ''SalesTermRef'') (\<lambda>a. py_get a ''name'' JNull)
           else Inr JNull)))"

text \<open>The body of the loop over the lines of an invoice, lines 218 to 225.\<close>

definition invoice_line :: "json \<Rightarrow> py_error + json" where
  "invoice_line line =
     andThen (py_get line ''SalesItemLineDetail'' (JObj [])) (\<lambda>detail.
     andThen (py_get line ''DetailType'' JNull) (\<lambda>detail_type.
     andThen (andThen (py_get detail ''ItemRef'' (JObj [])) (\<lambda>item. py_get item ''name'' JNull)) (\<lambda>name.
     andThen (py_get detail ''Qty'' JNull) (\<lambda>qty.
     andThen (py_get detail ''UnitPrice'' JNull) (\<lambda>rate.
     andThen (py_get line ''Amount'' JNull) (\<lambda>amount.
       Inr (JObj [(''type'', detail_type), (''name'', name), (''qty'', qty), (''rate'', rate),
                  (''amount'', amount)])))))))"

text \<open>The loop over \<^verbatim>\<open>inv.get("Line", [])\<close>, lines 216 to 225.\<close>

definition invoice_lines :: "json \<Rightarrow> py_error + json list" where
  "invoice_lines invoice =
     andThen (andThen (py_get invoice ''Line'' (JArr [])) py_iter) (for_each invoice_line)"

text \<open>The body of the loop over the invoices, lines 204 to 235.\<close>

definition invoice_entry :: "(json \<times> json) list \<Rightarrow> json \<Rightarrow> py_error + json" where
  "invoice_entry customer_map invoice =
     andThen (py_get invoice ''CustomerRef'' (JObj [])) (\<lambda>cust_ref.
     andThen (py_get cust_ref ''value'' JNull) (\<lambda>cust_id.
     andThen (dict_get customer_map cust_id (JObj [])) (\<lambda>customer.
     andThen (location_of_sale invoice) (\<lambda>location.
     andThen (invoice_lines invoice) (\<lambda>lines.
     andThen (py_get customer ''DisplayName'' JNull) (\<lambda>name.
     andThen (andThen (py_get customer ''PrimaryEmailAddr'' (JObj [])) (\<lambda>a. py_get a ''Address'' JNull)) (\<lambda>email.
     andThen (py_get invoice ''TxnDate'' JNull) (\<lambda>txn_date.
     andThen (py_get invoice ''DueDate'' JNull) (\<lambda>due_date.
     andThen (py_get invoice ''DocNumber'' JNull) (\<lambda>doc_number.
       Inr (JObj [(''customer'', name), (''customer_email'', email), (''invoice_date'', txn_date),
                  (''invoice_due_date'', due_date), (''location_of_sale'', location),
                  (''invoice_no'', doc_number), (''lines'', JArr lines)])))))))))))"

definition customer_invoices :: "world \<Rightarrow> (py_error + json) \<times> world" where
  "customer_invoices w =
     (case get_qb_client w of
        Inl e \<Rightarrow> (Inl e, w)
      | Inr None \<Rightarrow> (Inr not_authenticated, w)
      | Inr (Some qb) \<Rightarrow>
          (case query qb ''SELECT Id, DisplayName, PrimaryEmailAddr FROM Customer'' w of
             (Inl e, w1) \<Rightarrow> (Inl e, w1)
           | (Inr cust_resp, w1) \<Rightarrow>
               if status_code cust_resp \<noteq> 200 then (Inr (error_body cust_resp), w1)
               else
                 (case andThen (andThen (query_response cust_resp ''Customer'') py_iter)
                         (\<lambda>customers. customer_map_from customers []) of
                    Inl e \<Rightarrow> (Inl e, w1)
                  | Inr customer_map \<Rightarrow>
                      (case query qb ''SELECT * FROM Invoice'' w1 of
                         (Inl e, w2) \<Rightarrow> (Inl e, w2)
                       | (Inr inv_resp, w2) \<Rightarrow>
                           if status_code inv_resp \<noteq> 200 then (Inr (error_body inv_resp), w2)
                           else (andThen (query_response inv_resp ''Invoice'')
                                   (filtered ''customer_invoices'' (invoice_entry customer_map)), w2)))))"

subsection \<open>POST /create-invoice\<close>

text \<open>
  The framework validates the request body against \<open>InvoiceCreateModel\<close> before it calls the
  handler. A JSON integer given for a float field becomes \<^verbatim>\<open>float\<close> of it, and is refused
  when that overflows. What pydantic converts a value of another JSON type to (a numeric
  str for a float, a list of pairs for a dict) and whether a field annotated
  \<^verbatim>\<open>Optional[...]\<close> without a default may be left out differ between its versions: they are
  parameters of the validation. A list field takes any JSON list, the empty one included.
\<close>

record pydantic =
  to_float :: "json \<Rightarrow> pyfloat option"
  to_str :: "json \<Rightarrow> string option"
  to_dict :: "json \<Rightarrow> (string \<times> json) list option"
  optional_required :: bool

fun as_float :: "pydantic \<Rightarrow> json \<Rightarrow> pyfloat option" where
  "as_float p (JNum n) = py_float n"
| "as_float p v = to_float p v"

fun as_str :: "pydantic \<Rightarrow> json \<Rightarrow> string option" where
  "as_str p (JStr s) = Some s"
| "as_str p v = to_str p v"

fun as_dict :: "pydantic \<Rightarrow> json \<Rightarrow> (string \<times> json) list option" where
  "as_dict p (JObj kvs) = Some kvs"
| "as_dict p v = to_dict p v"

text \<open>A field without a default: absent or not convertible is a validation error.\<close>

definition required :: "(json \<Rightarrow> 'a option) \<Rightarrow> (string \<times> json) list \<Rightarrow> string \<Rightarrow> py_error + 'a" where
  "required conv kvs k =
     (case map_of kvs k of
        None \<Rightarrow> Inl ValidationError
      | Some v \<Rightarrow> (case conv v of None \<Rightarrow> Inl ValidationError | Some x \<Rightarrow> Inr x))"

text \<open>An \<^verbatim>\<open>Optional[...]\<close> field: absent (when \<open>must\<close> does not forbid it) or null is None.\<close>

definition optional :: "bool \<Rightarrow> (json \<Rightarrow> 'a option) \<Rightarrow> (string \<times> json) list \<Rightarrow> string \<Rightarrow> py_error + 'a option" where
  "optional must conv kvs k =
     (case map_of kvs k of
        None \<Rightarrow> if must then Inl ValidationError else Inr None
      | Some JNull \<Rightarrow> Inr None
      | Some v \<Rightarrow> (case conv v of None \<Rightarrow> Inl ValidationError | Some x \<Rightarrow> Inr (Some x)))"

definition validate_line :: "pydantic \<Rightarrow> json \<Rightarrow> py_error + InvoiceLineDetail" where
  "validate_line p v =
     (case as_dict p v of
        None \<Rightarrow> Inl ValidationError
      | Some kvs \<Rightarrow>
          andThen (required (as_float p) kvs ''Amount'') (\<lambda>amount.
          andThen (required (as_str p) kvs ''DetailType'') (\<lambda>detail_type.
          andThen (optional (optional_required p) (as_dict p) kvs ''SalesItemLineDetail'') (\<lambda>detail.
            Inr \<lparr>Amount = amount, DetailType = detail_type, SalesItemLineDetail = detail\<rparr>))))"

fun as_lines :: "pydantic \<Rightarrow> json \<Rightarrow> InvoiceLineDetail list option" where
  "as_lines p (JArr vs) =
     (case for_each (validate_line p) vs of Inl e \<Rightarrow> None | Inr ls \<Rightarrow> Some ls)"
| "as_lines p v = None"

definition validate_invoice :: "pydantic \<Rightarrow> json \<Rightarrow> py_error + InvoiceCreateModel" where
  "validate_invoice p v =
     (case as_dict p v of
        None \<Rightarrow> Inl ValidationError
      | Some kvs \<Rightarrow>
          andThen (required (as_dict p) kvs ''CustomerRef'') (\<lambda>customer_ref.
          andThen (required (as_lines p) kvs ''Line'') (\<lambda>line.
          andThen (optional False (as_dict p) kvs ''BillEmail'') (\<lambda>bill_email.
          andThen (optional False (as_str p) kvs ''TxnDate'') (\<lambda>txn_date.
          andThen (optional False (as_str p) kvs ''DueDate'') (\<lambda>due_date.
            Inr \<lparr>CustomerRef = customer_ref, Line = line, BillEmail = bill_email,
                 TxnDate = txn_date, DueDate = due_date\<rparr>))))))"

definition invoice_request :: "QuickBooksClient \<Rightarrow> InvoiceCreateModel \<Rightarrow> request" where
  "invoice_request qb invoice_data =
     \<lparr>req_method = POST,
      url = [Lit ''https://sandbox-quickbooks.api.intuit.com/v3/company/'', Str (realm_id qb),
             Lit ''/invoice''],
      req_headers =
        AList.update ''Content-Type'' [Lit ''application/json''] (headers qb ''application/json''),
      body = JsonOf invoice_data\<rparr>"

definition create_invoice :: "InvoiceCreateModel \<Rightarrow> world \<Rightarrow> (py_error + json) \<times> world" where
  "create_invoice invoice_data w =
     (case get_qb_client w of
        Inl e \<Rightarrow> (Inl e, w)
      | Inr None \<Rightarrow> (Inr not_authenticated, w)
      | Inr (Some qb) \<Rightarrow>
          (case requests_send (invoice_request qb invoice_data) w of
             (Inl e, w') \<Rightarrow> (Inl e, w')
           | (Inr r, w') \<Rightarrow>
               if status_code r \<noteq> 200 \<and> status_code r \<noteq> 201 then (Inr (error_body r), w')
               else (response_json r, w')))"

text \<open>The route: the body is validated, and only a valid one reaches the handler.\<close>

definition post_create_invoice :: "pydantic \<Rightarrow> json \<Rightarrow> world \<Rightarrow> (py_error + json) \<times> world" where
  "post_create_invoice p payload w =
     (case validate_invoice p payload of
        Inl e \<Rightarrow> (Inl e, w)
      | Inr invoice_data \<Rightarrow> create_invoice invoice_data w)"

section \<open>Vocabulary of the statements\<close>

text \<open>What \<^verbatim>\<open>d.get(k)\<close> returns on a dict with the bindings \<open>kvs\<close>.\<close>

definition get_or_null :: "(string \<times> json) list \<Rightarrow> string \<Rightarrow> json" where
  "get_or_null kvs k = (case map_of kvs k of None \<Rightarrow> JNull | Some v \<Rightarrow> v)"

fun is_object :: "json \<Rightarrow> bool" where
  "is_object (JObj kvs) = True"
| "is_object v = False"

text \<open>The bindings of an object; a value that is no object has none.\<close>

fun bindings :: "json \<Rightarrow> (string \<times> json) list" where
  "bindings (JObj kvs) = kvs"
| "bindings v = []"

text \<open>
  The projection the spec describes: the object with exactly the keys \<open>keys\<close>, in that
  order, each bound to the record's value for it, or to null when the record lacks it.
\<close>

definition projection :: "string list \<Rightarrow> json \<Rightarrow> json" where
  "projection keys rec = JObj (map (\<lambda>k. (k, get_or_null (bindings rec) k)) keys)"

text \<open>
  The service answers the request with status 200 and a body whose
  \<^verbatim>\<open>QueryResponse.<entity>\<close> is the list \<open>recs\<close>.
\<close>

definition answers :: "world \<Rightarrow> request \<Rightarrow> string \<Rightarrow> json list \<Rightarrow> bool" where
  "answers w req entity recs =
     (case net w req of
        Inl e \<Rightarrow> False
      | Inr r \<Rightarrow> status_code r = 200 \<and> query_response r entity = Inr (JArr recs))"

text \<open>
  The location of sale as amended: the first of ShipAddr, LocationRef, SalesTermRef that is
  present and non-empty decides alone; the result is its City (for ShipAddr) or name field,
  null when it lacks that field, and null when none of the three is present and non-empty.
\<close>

definition located :: "(string \<times> json) list \<Rightarrow> json" where
  "located kvs =
     (if truthy (get_or_null kvs ''ShipAddr'')
        then get_or_null (bindings (get_or_null kvs ''ShipAddr'')) ''City''
      else if truthy (get_or_null kvs ''LocationRef'')
        then get_or_null (bindings (get_or_null kvs ''LocationRef'')) ''name''
      else if truthy (get_or_null kvs ''SalesTermRef'')
        then get_or_null (bindings (get_or_null kvs ''SalesTermRef'')) ''name''
      else JNull)"

text \<open>
  The customer id an invoice refers to: \<^verbatim>\<open>CustomerRef.value\<close>, null when CustomerRef or its
  value is absent; there is none when CustomerRef is present and not an object.
\<close>

definition referenced_customer :: "(string \<times> json) list \<Rightarrow> json option" where
  "referenced_customer kvs =
     (case map_of kvs ''CustomerRef'' of
        None \<Rightarrow> Some JNull
      | Some (JObj ref) \<Rightarrow> Some (get_or_null ref ''value'')
      | Some v \<Rightarrow> None)"

text \<open>A line whose SalesItemLineDetail, and the ItemRef in it, are each absent or an object.\<close>

definition nested_ok :: "(string \<times> json) list \<Rightarrow> bool" where
  "nested_ok lk =
     (case map_of lk ''SalesItemLineDetail'' of
        None \<Rightarrow> True
      | Some d \<Rightarrow> is_object d \<and>
          (case map_of (bindings d) ''ItemRef'' of None \<Rightarrow> True | Some i \<Rightarrow> is_object i))"

text \<open>
  The projected line the spec describes: type, name, qty, rate, amount, where an absent
  SalesItemLineDetail or ItemRef counts as an empty object.
\<close>

definition line_projection :: "(string \<times> json) list \<Rightarrow> json" where
  "line_projection lk =
     (let detail = (case map_of lk ''SalesItemLineDetail'' of None \<Rightarrow> [] | Some d \<Rightarrow> bindings d);
          item = (case map_of detail ''ItemRef'' of None \<Rightarrow> [] | Some i \<Rightarrow> bindings i)
      in JObj [(''type'', get_or_null lk ''DetailType''), (''name'', get_or_null item ''name''),
               (''qty'', get_or_null detail ''Qty''), (''rate'', get_or_null detail ''UnitPrice''),
               (''amount'', get_or_null lk ''Amount'')])"

text \<open>The JSON values that can be dict keys: everything but lists and objects.\<close>

fun scalar :: "json \<Rightarrow> bool" where
  "scalar (JArr xs) = False"
| "scalar (JObj kvs) = False"
| "scalar v = True"

text \<open>The dict key a scalar is stored under: \<^verbatim>\<open>True\<close> and \<^verbatim>\<open>False\<close> are the keys 1 and 0.\<close>

fun key_of :: "json \<Rightarrow> json" where
  "key_of (JBool b) = JNum (if b then 1 else 0)"
| "key_of v = v"

text \<open>
  A customer record the joined view can process: an object with an Id that is null or a
  scalar, whose PrimaryEmailAddr is absent or an object.
\<close>

definition customer_ok :: "json \<Rightarrow> bool" where
  "customer_ok c =
     (is_object c \<and>
      (case map_of (bindings c) ''Id'' of None \<Rightarrow> False | Some v \<Rightarrow> scalar v) \<and>
      (case map_of (bindings c) ''PrimaryEmailAddr'' of None \<Rightarrow> True | Some a \<Rightarrow> is_object a))"

text \<open>The first of ShipAddr, LocationRef, SalesTermRef that is present and non-empty, if any.\<close>

definition deciding_container :: "(string \<times> json) list \<Rightarrow> json option" where
  "deciding_container kvs =
     (if truthy (get_or_null kvs ''ShipAddr'') then Some (get_or_null kvs ''ShipAddr'')
      else if truthy (get_or_null kvs ''LocationRef'') then Some (get_or_null kvs ''LocationRef'')
      else if truthy (get_or_null kvs ''SalesTermRef'') then Some (get_or_null kvs ''SalesTermRef'')
      else None)"

text \<open>The line items of an invoice: what iterating over its Line yields, nothing when Line is absent.\<close>

definition line_items :: "(string \<times> json) list \<Rightarrow> json list option" where
  "line_items kvs =
     (case py_iter (case map_of kvs ''Line'' of None \<Rightarrow> JArr [] | Some v \<Rightarrow> v) of
        Inl e \<Rightarrow> None
      | Inr ls \<Rightarrow> Some ls)"

text \<open>A line item that is an object whose SalesItemLineDetail and ItemRef are each absent or an object.\<close>

definition line_ok :: "json \<Rightarrow> bool" where
  "line_ok l = (is_object l \<and> nested_ok (bindings l))"

text \<open>
  An invoice the joined view can process: an object whose customer id is null or a scalar,
  whose deciding location container, if any, is an object, and whose line items are all
  well-formed.
\<close>

definition invoice_ok :: "json \<Rightarrow> bool" where
  "invoice_ok invoice =
     (is_object invoice \<and>
      (case referenced_customer (bindings invoice) of None \<Rightarrow> False | Some cust_id \<Rightarrow> scalar cust_id) \<and>
      (case deciding_container (bindings invoice) of None \<Rightarrow> True | Some c \<Rightarrow> is_object c) \<and>
      (case line_items (bindings invoice) of None \<Rightarrow> False | Some ls \<Rightarrow> list_all line_ok ls))"

text \<open>The customer id of the invoice is, as a dict key, the Id of no customer of the list.\<close>

definition unmatched :: "json list \<Rightarrow> json \<Rightarrow> bool" where
  "unmatched customers invoice =
     (case referenced_customer (bindings invoice) of
        None \<Rightarrow> False
      | Some cust_id \<Rightarrow>
          list_all (\<lambda>c. key_of (get_or_null (bindings c) ''Id'') \<noteq> key_of cust_id) customers)"

text \<open>The entry the spec describes for an invoice without a matching customer.\<close>

definition unmatched_entry :: "json \<Rightarrow> json" where
  "unmatched_entry invoice =
     JObj [(''customer'', JNull), (''customer_email'', JNull),
           (''invoice_date'', get_or_null (bindings invoice) ''TxnDate''),
           (''invoice_due_date'', get_or_null (bindings invoice) ''DueDate''),
           (''location_of_sale'', located (bindings invoice)),
           (''invoice_no'', get_or_null (bindings invoice) ''DocNumber''),
           (''lines'', JArr (map (\<lambda>l. line_projection (bindings l))
                              (case line_items (bindings invoice) of None \<Rightarrow> [] | Some ls \<Rightarrow> ls)))]"

section \<open>Example states\<close>

definition example_env :: "string option \<Rightarrow> env" where
  "example_env company =
     \<lparr>CLIENT_ID = Some ''client'', CLIENT_SECRET = Some ''secret'', REDIRECT_URI = None,
      QBO_BASE = None, COMPANY_ID = company, REFRESH_TOKEN = Some ''refresh-1''\<rparr>"

definition reply :: "int \<Rightarrow> string \<Rightarrow> json option \<Rightarrow> py_error + response" where
  "reply code txt js = Inr \<lparr>status_code = code, resp_text = txt, resp_json = js\<rparr>"

text \<open>A state with the given COMPANY_ID, token file and remote service, before any request.\<close>

definition example_world ::
  "string option \<Rightarrow> file_content option \<Rightarrow> (request \<Rightarrow> py_error + response) \<Rightarrow> world" where
  "example_world company stored service =
     \<lparr>environ = example_env company, files = Map.empty(TOKENS_FILE := stored),
      net = service, sent = []\<rparr>"

definition unreachable :: "request \<Rightarrow> py_error + response" where
  "unreachable req = Inl RequestException"

definition stored_tokens :: json where
  "stored_tokens = JObj [(''realmId'', JStr ''123''), (''access_token'', JStr ''old'')]"

definition new_tokens :: json where
  "new_tokens = JObj [(''access_token'', JStr ''new'')]"

definition token_only :: json where
  "token_only = JObj [(''access_token'', JStr ''tok'')]"

text \<open>A state whose token file holds an access token and a realm id, COMPANY_ID unset.\<close>

definition both_tokens_world :: "(request \<Rightarrow> py_error + response) \<Rightarrow> world" where
  "both_tokens_world service = example_world None (Some (JsonText stored_tokens)) service"

definition query_result :: "string \<Rightarrow> json \<Rightarrow> py_error + response" where
  "query_result entity records =
     reply 200 [] (Some (JObj [(''QueryResponse'', JObj [(entity, records)])]))"

text \<open>A service that answers the customer query of the joined view with \<open>customers\<close> and any other request with \<open>invoices\<close>.\<close>

definition quickbooks :: "json \<Rightarrow> json \<Rightarrow> request \<Rightarrow> py_error + response" where
  "quickbooks customers invoices req =
     (if body req = Data ''SELECT Id, DisplayName, PrimaryEmailAddr FROM Customer''
      then query_result ''Customer'' customers
      else query_result ''Invoice'' invoices)"

definition shipped_without_city :: json where
  "shipped_without_city =
     JObj [(''ShipAddr'', JObj [(''Line1'', JStr ''1 Main St'')]),
           (''LocationRef'', JObj [(''name'', JStr ''Y'')])]"

definition shipped_to_city :: "(string \<times> json) list" where
  "shipped_to_city =
     [(''ShipAddr'', JObj [(''City'', JStr ''X'')]), (''LocationRef'', JObj [(''name'', JStr ''Y'')])]"

definition unmatched_invoice :: "(string \<times> json) list" where
  "unmatched_invoice =
     [(''CustomerRef'', JObj [(''value'', JStr ''99'')]), (''DocNumber'', JStr ''1001''),
      (''Line'', JArr [JObj [(''DetailType'', JStr ''SubTotalLineDetail''), (''Amount'', JNum 5)]])]"

text \<open>A customer with a name and an e-mail address, and an invoice that refers to her.\<close>

definition ann :: json where
  "ann = JObj [(''Id'', JStr ''1''), (''DisplayName'', JStr ''Ann''),
               (''PrimaryEmailAddr'', JObj [(''Address'', JStr ''ann@example.com'')])]"

definition matched_invoice :: json where
  "matched_invoice = JObj [(''CustomerRef'', JObj [(''value'', JStr ''1'')]), (''DocNumber'', JStr ''1002'')]"

text \<open>A pydantic that converts nothing and lets a bare Optional field be left out.\<close>

definition strict :: pydantic where
  "strict = \<lparr>to_float = (\<lambda>v. None), to_str = (\<lambda>v. None), to_dict = (\<lambda>v. None),
             optional_required = False\<rparr>"

text \<open>A body with a customer reference and an empty list of lines, and the model it validates to.\<close>

definition no_lines_payload :: json where
  "no_lines_payload = JObj [(''CustomerRef'', JObj [(''value'', JStr ''1'')]), (''Line'', JArr [])]"

definition no_lines_invoice :: InvoiceCreateModel where
  "no_lines_invoice =
     \<lparr>CustomerRef = [(''value'', JStr ''1'')], Line = [],
      BillEmail = None, TxnDate = None, DueDate = None\<rparr>"

definition created_invoice :: json where
  "created_invoice = JObj [(''Invoice'', JObj [(''Id'', JStr ''7'')])]"

text \<open>The minimal body of the docstring of \<open>create_invoice\<close>, and the model it validates to.\<close>

definition minimal_payload :: "(string \<times> json) list" where
  "minimal_payload =
     [(''CustomerRef'', JObj [(''value'', JStr ''1'')]),
      (''Line'', JArr [JObj [(''Amount'', JNum 100), (''DetailType'', JStr ''SalesItemLineDetail''),
                             (''SalesItemLineDetail'', JObj [(''ItemRef'', JObj [(''value'', JStr ''3'')])])]])]"

definition minimal_invoice :: InvoiceCreateModel where
  "minimal_invoice =
     \<lparr>CustomerRef = [(''value'', JStr ''1'')],
      Line = [\<lparr>Amount = Finite 100, DetailType = ''SalesItemLineDetail'',
               SalesItemLineDetail = Some [(''ItemRef'', JObj [(''value'', JStr ''3'')])]\<rparr>],
      BillEmail = None, TxnDate = None, DueDate = None\<rparr>"

section \<open>Auxiliary facts\<close>

declare bit_length.simps [simp del]

lemma bit_length_floorlog: "bit_length n = floorlog 2 n"
proof (induction n rule: bit_length.induct)
  case (1 n)
  show ?case
  proof (cases "n = 0")
    case True
    then show ?thesis by (simp add: bit_length.simps floorlog_eq_zero_iff)
  next
    case False
    with 1 have "bit_length (n div 2) = floorlog 2 (n div 2)" by simp
    with False show ?thesis
      by (subst bit_length.simps, subst compute_floorlog) simp
  qed
qed

lemma bit_length_bounds:
  assumes "0 < a"
  shows "2 ^ (bit_length a - 1) \<le> a" and "a < 2 ^ bit_length a"
  using floorlog_bounds [of a 2] assms by (simp_all add: bit_length_floorlog)

lemma round_to_bits_ge:
  assumes "2 ^ p \<le> a" and "0 < p"
  shows "2 ^ (bit_length a - 1) \<le> round_to_bits p a"
proof -
  have pos: "0 < a" using assms(1) by (rule less_le_trans [rotated]) simp
  define shift where "shift = bit_length a - p"
  have "(2::nat) ^ p < 2 ^ bit_length a"
    using assms(1) bit_length_bounds(2) [OF pos] by (rule le_less_trans)
  then have big: "p < bit_length a"
    by (rule power_less_imp_less_exp [of 2, rotated]) simp
  with assms(2) have split: "bit_length a - 1 = (p - 1) + shift" by (simp add: shift_def)
  have eq: "(2::nat) ^ (bit_length a - 1) = 2 ^ (p - 1) * 2 ^ shift"
    by (simp only: split power_add)
  have "2 ^ (p - 1) * 2 ^ shift \<le> a"
    using bit_length_bounds(1) [OF pos] by (simp only: eq)
  then have "2 ^ (p - 1) \<le> a div 2 ^ shift"
    by (simp add: less_eq_div_iff_mult_less_eq)
  then have "2 ^ (p - 1) * 2 ^ shift \<le> (a div 2 ^ shift) * 2 ^ shift"
    by (rule mult_le_mono1)
  also have "\<dots> \<le> round_to_bits p a"
    using assms(1) by (simp add: round_to_bits_def Let_def shift_def [symmetric])
  finally show ?thesis by (simp only: eq)
qed

lemma round_to_bits_overflow:
  assumes "2 ^ e \<le> a" and "p \<le> e" and "0 < p"
  shows "2 ^ e \<le> round_to_bits p a"
proof -
  have pos: "0 < a" using assms(1) by (rule less_le_trans [rotated]) simp
  have "(2::nat) ^ p \<le> 2 ^ e" using assms(2) by (intro power_increasing) simp_all
  then have "2 ^ p \<le> a" using assms(1) by (rule le_trans)
  then have r: "2 ^ (bit_length a - 1) \<le> round_to_bits p a"
    using assms(3) by (rule round_to_bits_ge)
  have "(2::nat) ^ e < 2 ^ bit_length a"
    using assms(1) bit_length_bounds(2) [OF pos] by (rule le_less_trans)
  then have "e < bit_length a"
    by (rule power_less_imp_less_exp [of 2, rotated]) simp
  then have "e \<le> bit_length a - 1" by simp
  then have "(2::nat) ^ e \<le> 2 ^ (bit_length a - 1)"
    by (intro power_increasing) simp_all
  then show ?thesis using r by (rule le_trans)
qed

text \<open>An int below \<open>2 ^ 53\<close> in magnitude is converted exactly.\<close>

lemma py_float_exact: "\<bar>n\<bar> < 2 ^ 53 \<Longrightarrow> py_float n = Some (Finite (of_int n))"
proof -
  assume "\<bar>n\<bar> < 2 ^ 53"
  then have small: "nat \<bar>n\<bar> < 2 ^ 53"
    by (simp add: nat_less_iff)
  then have "round_to_bits 53 (nat \<bar>n\<bar>) = nat \<bar>n\<bar>"
    by (simp add: round_to_bits_def)
  moreover have "nat \<bar>n\<bar> < 2 ^ 1024"
    using small by (rule less_trans) simp
  moreover have "sgn n * \<bar>n\<bar> = n"
    by (simp add: mult_sgn_abs)
  ultimately show ?thesis
    by (simp add: py_float_def Let_def)
qed

text \<open>An int of magnitude \<open>2 ^ 1024\<close> or more has no float.\<close>

lemma py_float_overflow:
  assumes "2 ^ 1024 \<le> \<bar>n\<bar>"
  shows "py_float n = None"
proof -
  have "(2::nat) ^ 1024 \<le> nat \<bar>n\<bar>"
    using assms by (simp add: le_nat_iff)
  then have "2 ^ 1024 \<le> round_to_bits 53 (nat \<bar>n\<bar>)"
    by (rule round_to_bits_overflow) simp_all
  then show ?thesis by (simp add: py_float_def)
qed

text \<open>Beyond \<open>2 ^ 53\<close> the value is rounded, ties to even: down at \<open>2 ^ 53 + 1\<close>, up at \<open>2 ^ 53 + 3\<close>.\<close>

lemma py_float_rounds:
  "py_float (2 ^ 53 + 1) = Some (Finite (2 ^ 53))"
  "py_float (2 ^ 53 + 3) = Some (Finite (2 ^ 53 + 4))"
  by (simp_all add: py_float_def round_to_bits_def bit_length.simps)

lemma py_float_100 [simp]: "py_float 100 = Some (Finite 100)"
  using py_float_exact [of 100] by simp

lemma for_each_total: "for_each (\<lambda>k. Inr (f k)) xs = Inr (map f xs)"
  by (induction xs) simp_all

lemma for_each_cong_total:
  "\<forall>x\<in>set xs. f x = Inr (g x) \<Longrightarrow> for_each f xs = Inr (map g xs)"
  by (induction xs) simp_all

lemma for_each_fails:
  "\<exists>x\<in>set xs. \<exists>e. f x = Inl e \<Longrightarrow> \<exists>e. for_each f xs = Inl e"
proof (induction xs)
  case Nil
  then show ?case by simp
next
  case (Cons x xs)
  show ?case
  proof (cases "f x")
    case (Inl e)
    then show ?thesis by simp
  next
    case (Inr y)
    with Cons.prems have "\<exists>x\<in>set xs. \<exists>e. f x = Inl e" by auto
    then have "\<exists>e. for_each f xs = Inl e" by (rule Cons.IH)
    then obtain e where "for_each f xs = Inl e" ..
    with Inr show ?thesis by simp
  qed
qed

lemma andThen_Inr_iff: "andThen m f = Inr y \<longleftrightarrow> (\<exists>x. m = Inr x \<and> f x = Inr y)"
  by (cases m) simp_all

lemma andThen_error:
  assumes "\<And>e. m = Inl e \<Longrightarrow> e = err" and "\<And>x. m = Inr x \<Longrightarrow> f x = Inl err"
  shows "andThen m f = Inl err"
  using assms by (cases m) simp_all

lemma is_object_iff: "is_object v \<longleftrightarrow> (\<exists>kvs. v = JObj kvs)"
  by (cases v) simp_all

lemma py_get_bindings:
  "py_get v f JNull = (if is_object v then Inr (get_or_null (bindings v) f) else Inl AttributeError)"
  by (cases v) (simp_all add: get_or_null_def)

lemma map_of_projection:
  "map_of (map (\<lambda>k. (k, f k)) keys) k = (if k \<in> set keys then Some (f k) else None)"
  by (induction keys) auto

section \<open>Token store\<close>

lemma load_save [simp]: "load_tokens (save_tokens r w) = Inr r"
  by (simp add: load_tokens_def save_tokens_def)

lemma load_tokens_sent [simp]: "load_tokens (w\<lparr>sent := s\<rparr>) = load_tokens w"
  by (simp add: load_tokens_def)

text \<open>
  C8. Whatever the token file held before (nothing, a record, or text that does not parse),
  \<open>load_tokens\<close> after \<open>save_tokens r\<close> returns exactly \<open>r\<close>: the save replaces the whole
  content and merges nothing. When there is no token file, \<open>load_tokens\<close> returns the empty
  mapping instead of raising.
\<close>

theorem load_after_save:
  "load_tokens (save_tokens r w) = Inr r \<and>
   (files w TOKENS_FILE = None \<longrightarrow> load_tokens w = Inr (JObj []))"
  by (simp add: load_tokens_def save_tokens_def)

text \<open>A save over a stored record, and a load without a file.\<close>

theorem load_after_save_witness:
  "files (example_world None None unreachable) TOKENS_FILE = None \<and>
   load_tokens (example_world None None unreachable) = Inr (JObj []) \<and>
   load_tokens (save_tokens new_tokens (example_world None (Some (JsonText stored_tokens)) unreachable))
     = Inr new_tokens"
  using load_after_save [of new_tokens "example_world None (Some (JsonText stored_tokens)) unreachable"]
    load_after_save [of new_tokens "example_world None None unreachable"]
  by (simp add: example_world_def)

section \<open>Token refresh\<close>

lemma merge_and_save_obj:
  assumes "load_tokens w = Inr (JObj old)"
  shows "merge_and_save tokens w =
    (case map_of old ''realmId'' of
       None \<Rightarrow> (Inr (JObj [(''success'', JBool True), (''tokens'', tokens)]), save_tokens tokens w)
     | Some v \<Rightarrow>
        (case py_setitem tokens ''realmId'' v of
           Inl e \<Rightarrow> (Inl e, w)
         | Inr t \<Rightarrow> (Inr (JObj [(''success'', JBool True), (''tokens'', t)]), save_tokens t w)))"
  using assms
  by (auto simp: merge_and_save_def map_of_eq_None_iff[symmetric] split: option.splits sum.splits)

text \<open>
  C1. Let the refresh token be configured, the provider's token endpoint answer with status
  200 and a JSON body \<open>tokens\<close>, and the token store hold no record or a record \<open>old\<close>
  (\<open>load_tokens\<close> returns the mapping \<open>old\<close>, empty when there is no file). If \<open>old\<close> has no
  realmId key, the record persisted by \<open>refresh_access_token\<close> is exactly \<open>tokens\<close>: no
  realmId key is added. If \<open>old\<close> binds realmId to \<open>v\<close> and \<open>tokens\<close> is the object \<open>new\<close>,
  the record persisted is \<open>new\<close> with realmId set to \<open>v\<close> (\<open>AList.update\<close>: the binding
  of realmId is replaced or added, every other binding is kept).
\<close>

theorem refresh_persists:
  assumes "REFRESH_TOKEN (environ w) = Some refresh_token" and "refresh_token \<noteq> []"
    and "net w (token_request (environ w) refresh_token) = Inr r"
    and "status_code r = 200" and "resp_json r = Some tokens"
    and "load_tokens w = Inr (JObj old)"
  shows "(map_of old ''realmId'' = None \<longrightarrow>
            load_tokens (snd (refresh_access_token w)) = Inr tokens) \<and>
         (\<forall>v new. map_of old ''realmId'' = Some v \<and> tokens = JObj new \<longrightarrow>
            load_tokens (snd (refresh_access_token w)) = Inr (JObj (AList.update ''realmId'' v new)))"
  using assms
  by (simp add: refresh_access_token_def requests_send_def response_json_def merge_and_save_obj)

text \<open>
  The two examples of the spec: the prior record \<^verbatim>\<open>{realmId: "123", access_token: "old"}\<close>
  and the provider's \<^verbatim>\<open>{access_token: "new"}\<close>; then the same answer with no prior record.
\<close>

theorem refresh_persists_witness:
  "load_tokens (snd (refresh_access_token
      (example_world None (Some (JsonText stored_tokens)) (\<lambda>req. reply 200 ''{}'' (Some new_tokens)))))
     = Inr (JObj [(''access_token'', JStr ''new''), (''realmId'', JStr ''123'')]) \<and>
   load_tokens (snd (refresh_access_token
      (example_world None None (\<lambda>req. reply 200 ''{}'' (Some new_tokens)))))
     = Inr (JObj [(''access_token'', JStr ''new'')])"
  using refresh_persists
      [of "example_world None (Some (JsonText stored_tokens)) (\<lambda>req. reply 200 ''{}'' (Some new_tokens))"
          "''refresh-1''" "\<lparr>status_code = 200, resp_text = ''{}'', resp_json = Some new_tokens\<rparr>"
          new_tokens "[(''realmId'', JStr ''123''), (''access_token'', JStr ''old'')]"]
    refresh_persists
      [of "example_world None None (\<lambda>req. reply 200 ''{}'' (Some new_tokens))"
          "''refresh-1''" "\<lparr>status_code = 200, resp_text = ''{}'', resp_json = Some new_tokens\<rparr>"
          new_tokens "[]"]
  by (simp add: example_world_def example_env_def reply_def new_tokens_def stored_tokens_def
      load_tokens_def)

section \<open>Obtaining a client\<close>

lemma get_qb_client_obj:
  assumes "load_tokens w = Inr (JObj tokens)"
  shows "get_qb_client w =
     (let tok = get_or_null tokens ''access_token'';
          realm = py_or (get_or_null tokens ''realmId'') (getenv (COMPANY_ID (environ w)))
      in if \<not> truthy tok \<or> \<not> truthy realm then Inr None
         else Inr (Some (QuickBooksClient_init tok realm)))"
  using assms by (simp add: get_qb_client_def get_or_null_def Let_def)

lemma both_tokens_client:
  "get_qb_client (both_tokens_world service)
     = Inr (Some (QuickBooksClient_init (JStr ''old'') (JStr ''123'')))"
proof -
  have "load_tokens (both_tokens_world service)
          = Inr (JObj [(''realmId'', JStr ''123''), (''access_token'', JStr ''old'')])"
    by (simp add: both_tokens_world_def example_world_def load_tokens_def stored_tokens_def)
  from get_qb_client_obj [OF this] show ?thesis
    by (simp add: py_or_def get_or_null_def)
qed

lemma net_both_tokens_world [simp]: "net (both_tokens_world service) = service"
  by (simp add: both_tokens_world_def example_world_def)

lemma sent_both_tokens_world [simp]: "sent (both_tokens_world service) = []"
  by (simp add: both_tokens_world_def example_world_def)

text \<open>
  C4. When the token store holds no record (\<open>load_tokens\<close> returns the empty mapping: no
  file, or a file holding \<^verbatim>\<open>{}\<close>), each of the six data-fetch handlers returns the
  not-authenticated message and leaves the state as it was; in particular the list of
  requests sent is unchanged, so no outbound call is made. This holds whether or not
  COMPANY_ID is set.
\<close>

theorem no_token_record_not_authenticated:
  assumes "load_tokens w = Inr (JObj [])"
  shows "customer_info w = (Inr not_authenticated, w) \<and>
         get_customers w = (Inr not_authenticated, w) \<and>
         get_invoices w = (Inr not_authenticated, w) \<and>
         customer_invoices w = (Inr not_authenticated, w) \<and>
         create_invoice invoice_data w = (Inr not_authenticated, w) \<and>
         get_inventory w = (Inr not_authenticated, w)"
proof -
  have "get_qb_client w = Inr None"
    using assms by (simp add: get_qb_client_obj get_or_null_def)
  then show ?thesis
    by (simp add: customer_info_def get_customers_def get_invoices_def customer_invoices_def
        create_invoice_def get_inventory_def)
qed

text \<open>No token file, COMPANY_ID set, and a service that would raise if it were called.\<close>

theorem no_token_record_not_authenticated_witness:
  "load_tokens (example_world (Some ''9341'') None unreachable) = Inr (JObj []) \<and>
   customer_info (example_world (Some ''9341'') None unreachable)
     = (Inr not_authenticated, example_world (Some ''9341'') None unreachable) \<and>
   sent (snd (customer_invoices (example_world (Some ''9341'') None unreachable))) = [] \<and>
   sent (snd (create_invoice minimal_invoice (example_world (Some ''9341'') None unreachable))) = []"
proof -
  have h: "load_tokens (example_world (Some ''9341'') None unreachable) = Inr (JObj [])"
    by (simp add: load_tokens_def example_world_def)
  show ?thesis
    using h no_token_record_not_authenticated [OF h, of minimal_invoice]
    by (simp add: example_world_def)
qed

text \<open>
  C9. Let the token store hold a record \<open>tokens\<close>. "Missing" and "absent" are read as Python
  reads them in \<^verbatim>\<open>not x\<close>: absent, null or empty. Then \<open>get_qb_client\<close> returns no client
  exactly when the access token is missing, or the stored realmId and COMPANY_ID are both
  missing. In particular, with an access token, no realmId key and a non-empty COMPANY_ID,
  the client is built with COMPANY_ID as its realm id, and \<open>customer_info\<close> sends its one
  request to the company-info resource of that realm: the client's realm id is COMPANY_ID and
  the URL of the request carries it.
\<close>

theorem realm_falls_back_to_company_id:
  assumes "load_tokens w = Inr (JObj tokens)"
  shows "(get_qb_client w = Inr None \<longleftrightarrow>
            \<not> truthy (get_or_null tokens ''access_token'') \<or>
            \<not> truthy (get_or_null tokens ''realmId'') \<and> \<not> truthy (getenv (COMPANY_ID (environ w)))) \<and>
         (\<forall>company. map_of tokens ''realmId'' = None \<and> truthy (get_or_null tokens ''access_token'') \<and>
            COMPANY_ID (environ w) = Some company \<and> company \<noteq> [] \<longrightarrow>
            get_qb_client w =
              Inr (Some (QuickBooksClient_init (get_or_null tokens ''access_token'') (JStr company))) \<and>
            sent (snd (customer_info w)) = sent w @
              [company_info_request
                 (QuickBooksClient_init (get_or_null tokens ''access_token'') (JStr company))] \<and>
            realm_id (QuickBooksClient_init (get_or_null tokens ''access_token'') (JStr company))
              = JStr company \<and>
            url (company_info_request
                   (QuickBooksClient_init (get_or_null tokens ''access_token'') (JStr company)))
              = [Lit ''https://sandbox-quickbooks.api.intuit.com/v3/company'', Lit ''/'',
                 Str (JStr company), Lit ''/companyinfo/'', Str (JStr company)])"
proof -
  have client: "realm_id (QuickBooksClient_init tok realm) = realm \<and>
      url (company_info_request (QuickBooksClient_init tok realm))
        = [Lit ''https://sandbox-quickbooks.api.intuit.com/v3/company'', Lit ''/'',
           Str realm, Lit ''/companyinfo/'', Str realm]" for tok realm
    by (simp add: QuickBooksClient_init_def company_info_request_def)
  show ?thesis
    using assms client
    by (auto simp: get_qb_client_obj py_or_def get_or_null_def Let_def customer_info_def
        get_company_info_def requests_send_def split: sum.splits)
qed

text \<open>A stored record with an access token only: with COMPANY_ID set, and with it unset.\<close>

theorem realm_falls_back_to_company_id_witness:
  "get_qb_client (example_world (Some ''9341'') (Some (JsonText token_only)) unreachable)
     = Inr (Some (QuickBooksClient_init (JStr ''tok'') (JStr ''9341''))) \<and>
   sent (snd (customer_info (example_world (Some ''9341'') (Some (JsonText token_only)) unreachable)))
     = [company_info_request (QuickBooksClient_init (JStr ''tok'') (JStr ''9341''))] \<and>
   get_qb_client (example_world None (Some (JsonText token_only)) unreachable) = Inr None"
  using realm_falls_back_to_company_id
      [of "example_world (Some ''9341'') (Some (JsonText token_only)) unreachable"
          "[(''access_token'', JStr ''tok'')]"]
    realm_falls_back_to_company_id
      [of "example_world None (Some (JsonText token_only)) unreachable"
          "[(''access_token'', JStr ''tok'')]"]
  by (simp add: example_world_def example_env_def token_only_def load_tokens_def get_or_null_def)

section \<open>GET /customer-info\<close>

text \<open>
  C3, as stated, fails: with a client and an upstream answer of status 500 and body
  \<^verbatim>\<open>boom\<close>, the handler returns \<^verbatim>\<open>{status_code: 500, data: "boom"}\<close>, which has no error key.
\<close>

theorem customer_info_error_key_counterexample:
  "fst (customer_info (both_tokens_world (\<lambda>req. reply 500 ''boom'' None)))
     = Inr (JObj [(''status_code'', JNum 500), (''data'', JStr ''boom'')]) \<and>
   fst (customer_info (both_tokens_world (\<lambda>req. reply 500 ''boom'' None)))
     \<noteq> Inr (JObj [(''error'', JStr ''boom'')])"
  by (simp add: customer_info_def both_tokens_client get_company_info_def requests_send_def
      reply_def)

text \<open>
  C3, amended. When a client is available and the company-info call is answered, the
  handler returns the upstream status code under \<open>status_code\<close> together with, under \<open>data\<close>,
  the raw response body when the status is not 200, and the parsed company info when it is.
\<close>

theorem customer_info_reports_status:
  assumes "get_qb_client w = Inr (Some qb)" and "net w (company_info_request qb) = Inr r"
  shows "(status_code r \<noteq> 200 \<longrightarrow>
            fst (customer_info w) =
              Inr (JObj [(''status_code'', JNum (status_code r)), (''data'', JStr (resp_text r))])) \<and>
         (\<forall>info. status_code r = 200 \<and> resp_json r = Some info \<longrightarrow>
            fst (customer_info w) = Inr (JObj [(''status_code'', JNum 200), (''data'', info)]))"
  using assms
  by (simp add: customer_info_def get_company_info_def requests_send_def response_json_def)

text \<open>An expired token (401) and a successful answer.\<close>

theorem customer_info_reports_status_witness:
  "fst (customer_info (both_tokens_world (\<lambda>req. reply 401 ''expired'' None)))
     = Inr (JObj [(''status_code'', JNum 401), (''data'', JStr ''expired'')]) \<and>
   fst (customer_info (both_tokens_world (\<lambda>req. reply 200 ''{}'' (Some (JObj [(''CompanyInfo'', JObj [])])))))
     = Inr (JObj [(''status_code'', JNum 200), (''data'', JObj [(''CompanyInfo'', JObj [])])])"
  using customer_info_reports_status [OF both_tokens_client,
      of "\<lambda>req. reply 401 ''expired'' None"
         "\<lparr>status_code = 401, resp_text = ''expired'', resp_json = None\<rparr>"]
    customer_info_reports_status [OF both_tokens_client,
      of "\<lambda>req. reply 200 ''{}'' (Some (JObj [(''CompanyInfo'', JObj [])]))"
         "\<lparr>status_code = 200, resp_text = ''{}'', resp_json = Some (JObj [(''CompanyInfo'', JObj [])])\<rparr>"]
  by (simp add: reply_def)

section \<open>Projection handlers\<close>

lemma extract_fields_obj:
  "is_object rec \<Longrightarrow> extract_fields keys rec = Inr (projection keys rec)"
  by (cases rec) (simp_all add: extract_fields_def for_each_total get_or_null_def projection_def)

lemma filtered_objects:
  assumes "\<forall>rec\<in>set recs. is_object rec"
  shows "filtered out_key (extract_fields keys) (JArr recs)
           = Inr (JObj [(out_key, JArr (map (projection keys) recs))])"
proof -
  have "for_each (extract_fields keys) recs = Inr (map (projection keys) recs)"
    using assms by (intro for_each_cong_total) (simp add: extract_fields_obj)
  then show ?thesis by (simp add: filtered_def)
qed

lemma extract_customer_fields_eq: "extract_customer_fields = extract_fields customer_keys"
  by (rule ext) (simp add: extract_customer_fields_def)

lemma extract_invoice_fields_eq: "extract_invoice_fields = extract_fields invoice_keys"
  by (rule ext) (simp add: extract_invoice_fields_def)

lemma extract_item_fields_eq: "extract_item_fields = extract_fields item_keys"
  by (rule ext) (simp add: extract_item_fields_def)

text \<open>
  C5. Let a client be available and the query of a projection handler be answered with
  status 200 and a list \<open>recs\<close> of records (JSON objects). Then /customers, /invoices and
  /inventory return, under their key, the list of the projections of the records onto the
  fixed keys of the entity: for a customer Id, DisplayName, PrimaryEmailAddr, PrimaryPhone,
  CompanyName, Balance; for an invoice Id, DocNumber, CustomerRef, BillEmail, TxnDate,
  DueDate, Line, TxnTaxDetail, TotalAmt, Balance; for an inventory item Id, Name, Sku,
  QtyOnHand, UnitPrice, Type, Active. A projection has exactly those keys; each is bound to
  the record's value, or to null when the record lacks it; any other key of the record is
  absent from it.
\<close>

theorem projection_keeps_known_keys:
  assumes "get_qb_client w = Inr (Some qb)" and "\<forall>rec\<in>set recs. is_object rec"
  shows "(answers w (query_request qb ''SELECT * FROM Customer'') ''Customer'' recs \<longrightarrow>
            fst (get_customers w) = Inr (JObj [(''customers'', JArr (map
              (projection [''Id'', ''DisplayName'', ''PrimaryEmailAddr'', ''PrimaryPhone'',
                           ''CompanyName'', ''Balance'']) recs))])) \<and>
         (answers w (query_request qb ''SELECT * FROM Invoice'') ''Invoice'' recs \<longrightarrow>
            fst (get_invoices w) = Inr (JObj [(''invoices'', JArr (map
              (projection [''Id'', ''DocNumber'', ''CustomerRef'', ''BillEmail'', ''TxnDate'',
                           ''DueDate'', ''Line'', ''TxnTaxDetail'', ''TotalAmt'', ''Balance'']) recs))])) \<and>
         (answers w (query_request qb
              (''SELECT * FROM Item WHERE Type = '' @ [CHR 0x27] @ ''Inventory'' @ [CHR 0x27])) ''Item'' recs \<longrightarrow>
            fst (get_inventory w) = Inr (JObj [(''inventory'', JArr (map
              (projection [''Id'', ''Name'', ''Sku'', ''QtyOnHand'', ''UnitPrice'', ''Type'',
                           ''Active'']) recs))])) \<and>
         (\<forall>keys rec k. map fst (bindings (projection keys rec)) = keys \<and>
            map_of (bindings (projection keys rec)) k =
              (if k \<in> set keys then Some (get_or_null (bindings rec) k) else None))"
  using assms
  unfolding customer_keys_def [symmetric] invoice_keys_def [symmetric] item_keys_def [symmetric]
    inventory_query_def [symmetric]
  by (auto simp: answers_def get_customers_def get_invoices_def get_inventory_def query_def
      requests_send_def filtered_objects extract_customer_fields_eq extract_invoice_fields_eq
      extract_item_fields_eq projection_def map_of_projection comp_def
      split: sum.splits)

text \<open>
  The example of the spec, a customer with the extra field \<^verbatim>\<open>"Foo": "bar"\<close>, and the same
  for an invoice and an inventory item.
\<close>

theorem projection_keeps_known_keys_witness:
  "fst (get_customers (both_tokens_world (\<lambda>req. query_result ''Customer''
          (JArr [JObj [(''Id'', JStr ''1''), (''Foo'', JStr ''bar'')]]))))
     = Inr (JObj [(''customers'', JArr [JObj
          [(''Id'', JStr ''1''), (''DisplayName'', JNull), (''PrimaryEmailAddr'', JNull),
           (''PrimaryPhone'', JNull), (''CompanyName'', JNull), (''Balance'', JNull)]])]) \<and>
   fst (get_invoices (both_tokens_world (\<lambda>req. query_result ''Invoice''
          (JArr [JObj [(''Foo'', JStr ''bar''), (''DocNumber'', JStr ''1001'')]]))))
     = Inr (JObj [(''invoices'', JArr [JObj
          [(''Id'', JNull), (''DocNumber'', JStr ''1001''), (''CustomerRef'', JNull),
           (''BillEmail'', JNull), (''TxnDate'', JNull), (''DueDate'', JNull), (''Line'', JNull),
           (''TxnTaxDetail'', JNull), (''TotalAmt'', JNull), (''Balance'', JNull)]])]) \<and>
   fst (get_inventory (both_tokens_world (\<lambda>req. query_result ''Item''
          (JArr [JObj [(''Name'', JStr ''Rock''), (''Foo'', JStr ''bar''), (''Active'', JBool True)]]))))
     = Inr (JObj [(''inventory'', JArr [JObj
          [(''Id'', JNull), (''Name'', JStr ''Rock''), (''Sku'', JNull), (''QtyOnHand'', JNull),
           (''UnitPrice'', JNull), (''Type'', JNull), (''Active'', JBool True)]])])"
  using projection_keeps_known_keys [OF both_tokens_client,
      of "[JObj [(''Id'', JStr ''1''), (''Foo'', JStr ''bar'')]]"
         "\<lambda>req. query_result ''Customer'' (JArr [JObj [(''Id'', JStr ''1''), (''Foo'', JStr ''bar'')]])"]
    projection_keeps_known_keys [OF both_tokens_client,
      of "[JObj [(''Foo'', JStr ''bar''), (''DocNumber'', JStr ''1001'')]]"
         "\<lambda>req. query_result ''Invoice'' (JArr [JObj [(''Foo'', JStr ''bar''), (''DocNumber'', JStr ''1001'')]])"]
    projection_keeps_known_keys [OF both_tokens_client,
      of "[JObj [(''Name'', JStr ''Rock''), (''Foo'', JStr ''bar''), (''Active'', JBool True)]]"
         "\<lambda>req. query_result ''Item''
            (JArr [JObj [(''Name'', JStr ''Rock''), (''Foo'', JStr ''bar''), (''Active'', JBool True)]])"]
  by (simp add: answers_def query_result_def reply_def query_response_def response_json_def
      projection_def get_or_null_def)

section \<open>Joined customer-invoice view\<close>

lemmas run_handler =
  customer_invoices_def both_tokens_client query_def requests_send_def query_request_def
  quickbooks_def query_result_def reply_def query_response_def response_json_def filtered_def
  invoice_entry_def invoice_lines_def dict_get_def location_of_sale_def present_def
  invoice_line_def error_body_def

lemma present_obj: "present k (JObj kvs) = Inr (truthy (get_or_null kvs k))"
  by (auto simp: present_def get_or_null_def map_of_eq_None_iff[symmetric] split: option.splits)

lemma getitem_present:
  "truthy (get_or_null kvs k) \<Longrightarrow> py_getitem (JObj kvs) k = Inr (get_or_null kvs k)"
  by (auto simp: get_or_null_def split: option.splits)

lemma location_of_sale_obj:
  "location_of_sale (JObj kvs) =
     (if truthy (get_or_null kvs ''ShipAddr'') then py_get (get_or_null kvs ''ShipAddr'') ''City'' JNull
      else if truthy (get_or_null kvs ''LocationRef'') then py_get (get_or_null kvs ''LocationRef'') ''name'' JNull
      else if truthy (get_or_null kvs ''SalesTermRef'') then py_get (get_or_null kvs ''SalesTermRef'') ''name'' JNull
      else Inr JNull)"
  by (simp add: location_of_sale_def present_obj getitem_present del: py_getitem.simps)

text \<open>
  C2, as stated, fails: for an invoice whose ShipAddr is a non-empty object without City
  and whose LocationRef has the name Y, the handler's entry has \<open>location_of_sale\<close> null,
  not Y.
\<close>

theorem location_first_non_empty_counterexample:
  "fst (customer_invoices (both_tokens_world (quickbooks (JArr []) (JArr [shipped_without_city]))))
     = Inr (JObj [(''customer_invoices'', JArr [JObj
         [(''customer'', JNull), (''customer_email'', JNull), (''invoice_date'', JNull),
          (''invoice_due_date'', JNull), (''location_of_sale'', JNull), (''invoice_no'', JNull),
          (''lines'', JArr [])]])]) \<and>
   location_of_sale shipped_without_city \<noteq> Inr (JStr ''Y'')"
  by (simp add: run_handler shipped_without_city_def)

text \<open>
  C2, amended. For every invoice (a JSON object) the location of sale is decided by the
  first of ShipAddr, LocationRef, SalesTermRef that is present and non-empty: it is that
  container's City (ShipAddr) or name (the other two), null when the container lacks the
  field, and null when none of the three is present and non-empty; a later container is
  not consulted. Whenever \<open>location_of_sale\<close> returns, it returns this value; it returns
  whenever each present, non-empty container is an object; and the \<open>location_of_sale\<close> field
  of every entry the handler builds for the invoice is this value.
\<close>

theorem location_from_first_present_container:
  "(location_of_sale (JObj kvs) = Inr location \<longrightarrow> location = located kvs) \<and>
   ((\<forall>k\<in>{''ShipAddr'', ''LocationRef'', ''SalesTermRef''}.
        truthy (get_or_null kvs k) \<longrightarrow> is_object (get_or_null kvs k)) \<longrightarrow>
      location_of_sale (JObj kvs) = Inr (located kvs)) \<and>
   (\<forall>customer_map entry. invoice_entry customer_map (JObj kvs) = Inr entry \<longrightarrow>
      get_or_null (bindings entry) ''location_of_sale'' = located kvs)"
proof -
  have a: "location = located kvs" if "location_of_sale (JObj kvs) = Inr location" for location
    using that by (auto simp: location_of_sale_obj located_def py_get_bindings split: if_splits)
  have c: "get_or_null (bindings entry) ''location_of_sale'' = located kvs"
    if "invoice_entry customer_map (JObj kvs) = Inr entry" for customer_map entry
  proof -
    from that obtain location where "location_of_sale (JObj kvs) = Inr location"
      and "get_or_null (bindings entry) ''location_of_sale'' = location"
      unfolding invoice_entry_def andThen_Inr_iff
      by (auto simp: get_or_null_def)
    with a show ?thesis by simp
  qed
  show ?thesis
    using a c by (auto simp: location_of_sale_obj located_def py_get_bindings)
qed

text \<open>
  The examples of the spec: City X and LocationRef name Y give X; SalesTermRef name Z alone
  gives Z; none of the three gives null.
\<close>

theorem location_from_first_present_container_witness:
  "location_of_sale (JObj shipped_to_city) = Inr (JStr ''X'') \<and>
   located shipped_to_city = JStr ''X'' \<and>
   (\<exists>entry. invoice_entry [] (JObj shipped_to_city) = Inr entry \<and>
      get_or_null (bindings entry) ''location_of_sale'' = JStr ''X'') \<and>
   location_of_sale (JObj [(''SalesTermRef'', JObj [(''name'', JStr ''Z'')])]) = Inr (JStr ''Z'') \<and>
   location_of_sale (JObj []) = Inr JNull"
  using location_from_first_present_container [of shipped_to_city "JStr ''X''"]
    location_from_first_present_container [of "[(''SalesTermRef'', JObj [(''name'', JStr ''Z'')])]" "JStr ''Z''"]
    location_from_first_present_container [of "[]" JNull]
  by (simp add: shipped_to_city_def located_def get_or_null_def run_handler)

lemma invoice_line_obj:
  assumes "nested_ok lk"
  shows "invoice_line (JObj lk) = Inr (line_projection lk)"
proof (cases "map_of lk ''SalesItemLineDetail''")
  case None
  then show ?thesis
    by (simp add: invoice_line_def line_projection_def get_or_null_def)
next
  case (Some d)
  with assms obtain dk where d: "d = JObj dk"
    by (auto simp: nested_ok_def is_object_iff)
  show ?thesis
  proof (cases "map_of dk ''ItemRef''")
    case None
    with Some d show ?thesis
      by (simp add: invoice_line_def line_projection_def get_or_null_def)
  next
    case (Some i)
    with assms \<open>map_of lk ''SalesItemLineDetail'' = Some d\<close> d obtain ik where "i = JObj ik"
      by (auto simp: nested_ok_def is_object_iff)
    with Some \<open>map_of lk ''SalesItemLineDetail'' = Some d\<close> d show ?thesis
      by (simp add: invoice_line_def line_projection_def get_or_null_def)
  qed
qed

lemma hash_key_scalar: "scalar v \<Longrightarrow> hash_key v = Inr (key_of v)"
  by (cases v) simp_all

lemma customer_map_from_ok:
  assumes "list_all customer_ok cs"
  shows "\<exists>cm. customer_map_from cs m = Inr cm \<and>
           (\<forall>h. map_of cm h = None \<longleftrightarrow>
                  map_of m h = None \<and> list_all (\<lambda>c. key_of (get_or_null (bindings c) ''Id'') \<noteq> h) cs) \<and>
           (\<forall>h c. map_of cm h = Some c \<longrightarrow> map_of m h = Some c \<or> c \<in> set cs)"
  using assms
proof (induction cs arbitrary: m)
  case Nil
  then show ?case by simp
next
  case (Cons c cs)
  from Cons.prems obtain kvs v where c: "c = JObj kvs" and v: "map_of kvs ''Id'' = Some v" "scalar v"
    by (auto simp: customer_ok_def is_object_iff split: option.splits)
  from Cons.prems have "list_all customer_ok cs" by simp
  from Cons.IH [OF this, of "AList.update (key_of v) c m"]
  obtain cm where cm: "customer_map_from cs (AList.update (key_of v) c m) = Inr cm"
    and none: "\<And>h. map_of cm h = None \<longleftrightarrow>
        map_of (AList.update (key_of v) c m) h = None \<and>
        list_all (\<lambda>c. key_of (get_or_null (bindings c) ''Id'') \<noteq> h) cs"
    and some: "\<And>h c'. map_of cm h = Some c' \<Longrightarrow>
        map_of (AList.update (key_of v) c m) h = Some c' \<or> c' \<in> set cs"
    by blast
  have step: "customer_map_from (c # cs) m = Inr cm"
    using c v cm by (simp add: hash_key_scalar)
  have id: "get_or_null (bindings c) ''Id'' = v"
    using c v by (simp add: get_or_null_def)
  show ?case
  proof (intro exI conjI allI impI)
    show "customer_map_from (c # cs) m = Inr cm" by (rule step)
  next
    fix h
    show "map_of cm h = None \<longleftrightarrow>
        map_of m h = None \<and> list_all (\<lambda>c. key_of (get_or_null (bindings c) ''Id'') \<noteq> h) (c # cs)"
      by (auto simp: none [of h] id update_conv')
  next
    fix h c'
    assume "map_of cm h = Some c'"
    from some [OF this] show "map_of m h = Some c' \<or> c' \<in> set (c # cs)"
      by (auto simp: update_conv' split: if_splits)
  qed
qed

lemma invoice_lines_ok:
  assumes "line_items kvs = Some ls" and "list_all line_ok ls"
  shows "invoice_lines (JObj kvs) = Inr (map (\<lambda>l. line_projection (bindings l)) ls)"
proof -
  have "for_each invoice_line ls = Inr (map (\<lambda>l. line_projection (bindings l)) ls)"
  proof (rule for_each_cong_total, rule ballI)
    fix l assume "l \<in> set ls"
    with assms(2) have "line_ok l" by (simp add: list_all_iff)
    then obtain lk where "l = JObj lk" "nested_ok lk"
      by (auto simp: line_ok_def is_object_iff)
    then show "invoice_line l = Inr (line_projection (bindings l))"
      by (simp add: invoice_line_obj)
  qed
  moreover have "py_iter (case map_of kvs ''Line'' of None \<Rightarrow> JArr [] | Some v \<Rightarrow> v) = Inr ls"
    using assms(1) by (simp add: line_items_def split: sum.splits)
  ultimately show ?thesis by (simp add: invoice_lines_def)
qed

lemma location_of_sale_ok:
  assumes "case deciding_container kvs of None \<Rightarrow> True | Some c \<Rightarrow> is_object c"
  shows "location_of_sale (JObj kvs) = Inr (located kvs)"
  using assms
  by (auto simp: deciding_container_def location_of_sale_obj located_def py_get_bindings
      split: if_splits)

lemma invoice_entry_ok:
  assumes "invoice_ok invoice" and "\<forall>h c. map_of cm h = Some c \<longrightarrow> customer_ok c"
  shows "\<exists>entry. invoice_entry cm invoice = Inr entry \<and>
           (\<forall>cust_id. referenced_customer (bindings invoice) = Some cust_id \<and>
                        map_of cm (key_of cust_id) = None \<longrightarrow> entry = unmatched_entry invoice)"
proof -
  from assms(1) obtain kvs where inv: "invoice = JObj kvs"
    by (auto simp: invoice_ok_def is_object_iff)
  from assms(1) inv obtain cust_id where cid: "referenced_customer kvs = Some cust_id" "scalar cust_id"
    by (auto simp: invoice_ok_def split: option.splits)
  from assms(1) inv obtain ls where ls: "line_items kvs = Some ls" "list_all line_ok ls"
    by (auto simp: invoice_ok_def split: option.splits)
  from assms(1) inv have loc: "location_of_sale (JObj kvs) = Inr (located kvs)"
    by (intro location_of_sale_ok) (simp add: invoice_ok_def)
  obtain ref where ref: "(case map_of kvs ''CustomerRef'' of None \<Rightarrow> JObj [] | Some v \<Rightarrow> v) = JObj ref"
    and val: "get_or_null ref ''value'' = cust_id"
    using cid(1)
    by (auto simp: referenced_customer_def get_or_null_def split: option.splits json.splits)
  have val': "py_get (JObj ref) ''value'' JNull = Inr cust_id"
    using val by (simp add: get_or_null_def)
  define customer where
    "customer = (case map_of cm (key_of cust_id) of None \<Rightarrow> JObj [] | Some c \<Rightarrow> c)"
  have lookup: "dict_get cm cust_id (JObj []) = Inr customer"
    using cid(2) by (simp add: dict_get_def hash_key_scalar customer_def)
  have "customer = JObj [] \<or> customer_ok customer"
    using assms(2) by (auto simp: customer_def split: option.splits)
  then obtain ck ek where ck: "customer = JObj ck"
    and ek: "(case map_of ck ''PrimaryEmailAddr'' of None \<Rightarrow> JObj [] | Some a \<Rightarrow> a) = JObj ek"
    by (auto simp: customer_ok_def is_object_iff split: option.splits)
  have run: "invoice_entry cm (JObj kvs) =
     Inr (JObj [(''customer'', get_or_null ck ''DisplayName''),
                (''customer_email'', get_or_null ek ''Address''),
                (''invoice_date'', get_or_null kvs ''TxnDate''),
                (''invoice_due_date'', get_or_null kvs ''DueDate''),
                (''location_of_sale'', located kvs),
                (''invoice_no'', get_or_null kvs ''DocNumber''),
                (''lines'', JArr (map (\<lambda>l. line_projection (bindings l)) ls))])"
    using ref val' lookup loc invoice_lines_ok [OF ls] ck ek
    by (simp add: invoice_entry_def get_or_null_def)
  have "get_or_null ck ''DisplayName'' = JNull \<and> get_or_null ek ''Address'' = JNull"
    if "map_of cm (key_of cust_id) = None"
    using that ck ek by (simp add: customer_def get_or_null_def)
  then show ?thesis
    using run cid(1) ls(1) by (auto simp: inv unmatched_entry_def)
qed

lemma for_each_exists:
  assumes "\<forall>x\<in>set xs. \<exists>y. f x = Inr y \<and> P x y"
  shows "\<exists>ys. for_each f xs = Inr ys \<and> length ys = length xs \<and> (\<forall>i<length xs. P (xs ! i) (ys ! i))"
  using assms
proof (induction xs)
  case Nil
  then show ?case by simp
next
  case (Cons x xs)
  from Cons.prems obtain y where y: "f x = Inr y" "P x y" by auto
  from Cons.prems have "\<forall>x\<in>set xs. \<exists>y. f x = Inr y \<and> P x y" by simp
  from Cons.IH [OF this] obtain ys where ys: "for_each f xs = Inr ys" "length ys = length xs"
    "\<forall>i<length xs. P (xs ! i) (ys ! i)" by auto
  have "\<forall>i<length (x # xs). P ((x # xs) ! i) ((y # ys) ! i)"
    using y(2) ys(3) by (auto simp: nth_Cons split: nat.splits)
  with y(1) ys(1,2) show ?case by auto
qed

text \<open>
  C6, as stated, fails twice. An invoice whose \<^verbatim>\<open>CustomerRef.value\<close> is a list matches no
  customer id, and the handler raises TypeError (a list is no dict key). An invoice without
  CustomerRef is looked up under the id None, which a customer whose Id is null matches:
  the entry then carries that customer's name.
\<close>

theorem unmatched_customer_counterexample:
  "fst (customer_invoices (both_tokens_world
      (quickbooks (JArr []) (JArr [JObj [(''CustomerRef'', JObj [(''value'', JArr [])])]]))))
     = Inl TypeError \<and>
   fst (customer_invoices (both_tokens_world
      (quickbooks (JArr [JObj [(''Id'', JNull), (''DisplayName'', JStr ''Ghost'')]]) (JArr [JObj []]))))
     = Inr (JObj [(''customer_invoices'', JArr [JObj
         [(''customer'', JStr ''Ghost''), (''customer_email'', JNull), (''invoice_date'', JNull),
          (''invoice_due_date'', JNull), (''location_of_sale'', JNull), (''invoice_no'', JNull),
          (''lines'', JArr [])]])])"
  by (simp add: run_handler)

text \<open>
  C6, amended. Let a client be available and both queries of the joined view be answered
  with status 200, the first with a list of customer records that are objects with an Id
  that is null or a scalar and a PrimaryEmailAddr that is absent or an object, the second
  with a list of invoices that are objects whose customer id (\<^verbatim>\<open>CustomerRef.value\<close>, or
  null when CustomerRef or its value is absent) is null or a scalar, whose first present
  and non-empty container among ShipAddr, LocationRef, SalesTermRef is an object, and whose
  line items are objects in which SalesItemLineDetail and ItemRef are each absent or an
  object. Then the handler does not fail and returns one entry per invoice, in order. For
  every invoice whose customer id is, as a dict key, the Id of no customer, the entry has
  customer and customer_email null, and its line items are projected into type, name,
  qty, rate, amount, with null for every value read from an absent SalesItemLineDetail or
  ItemRef.
\<close>

theorem unmatched_customer_gives_nulls:
  assumes "get_qb_client w = Inr (Some qb)"
    and "answers w (query_request qb ''SELECT Id, DisplayName, PrimaryEmailAddr FROM Customer'')
           ''Customer'' customers"
    and "answers w (query_request qb ''SELECT * FROM Invoice'') ''Invoice'' invoices"
    and "list_all customer_ok customers" and "list_all invoice_ok invoices"
  shows "\<exists>entries. fst (customer_invoices w) = Inr (JObj [(''customer_invoices'', JArr entries)]) \<and>
           length entries = length invoices \<and>
           (\<forall>i<length invoices. unmatched customers (invoices ! i) \<longrightarrow>
              entries ! i = unmatched_entry (invoices ! i))"
proof -
  from customer_map_from_ok [OF assms(4), of "[]"]
  obtain cm where cm: "customer_map_from customers [] = Inr cm"
    and none: "\<And>h. map_of cm h = None \<longleftrightarrow>
        list_all (\<lambda>c. key_of (get_or_null (bindings c) ''Id'') \<noteq> h) customers"
    and some: "\<And>h c. map_of cm h = Some c \<Longrightarrow> c \<in> set customers"
    by auto
  have ok: "\<forall>h c. map_of cm h = Some c \<longrightarrow> customer_ok c"
    using some assms(4) by (auto simp: list_all_iff)
  have "\<forall>invoice\<in>set invoices. \<exists>entry. invoice_entry cm invoice = Inr entry \<and>
          (unmatched customers invoice \<longrightarrow> entry = unmatched_entry invoice)"
  proof
    fix invoice assume "invoice \<in> set invoices"
    with assms(5) have "invoice_ok invoice" by (simp add: list_all_iff)
    from invoice_entry_ok [OF this ok] obtain entry where e: "invoice_entry cm invoice = Inr entry"
      "\<And>cust_id. referenced_customer (bindings invoice) = Some cust_id \<Longrightarrow>
         map_of cm (key_of cust_id) = None \<Longrightarrow> entry = unmatched_entry invoice"
      by auto
    have "entry = unmatched_entry invoice" if "unmatched customers invoice"
      using that e(2) by (auto simp: unmatched_def none split: option.splits)
    with e(1) show "\<exists>entry. invoice_entry cm invoice = Inr entry \<and>
          (unmatched customers invoice \<longrightarrow> entry = unmatched_entry invoice)" by auto
  qed
  from for_each_exists [OF this]
  obtain entries where entries: "for_each (invoice_entry cm) invoices = Inr entries"
    "length entries = length invoices"
    "\<forall>i<length invoices. unmatched customers (invoices ! i) \<longrightarrow>
       entries ! i = unmatched_entry (invoices ! i)"
    by auto
  have "fst (customer_invoices w) = Inr (JObj [(''customer_invoices'', JArr entries)])"
    using assms(1,2,3) cm entries(1)
    by (auto simp: customer_invoices_def answers_def query_def requests_send_def filtered_def
        split: sum.splits)
  with entries(2,3) show ?thesis by auto
qed

text \<open>One customer, an invoice that refers to customer 99 and an invoice that refers to her.\<close>

theorem unmatched_customer_gives_nulls_witness:
  "list_all customer_ok [ann] \<and> list_all invoice_ok [JObj unmatched_invoice, matched_invoice] \<and>
   unmatched [ann] (JObj unmatched_invoice) \<and>
   fst (customer_invoices (both_tokens_world
      (quickbooks (JArr [ann]) (JArr [JObj unmatched_invoice, matched_invoice]))))
     = Inr (JObj [(''customer_invoices'', JArr
         [JObj [(''customer'', JNull), (''customer_email'', JNull), (''invoice_date'', JNull),
                (''invoice_due_date'', JNull), (''location_of_sale'', JNull),
                (''invoice_no'', JStr ''1001''),
                (''lines'', JArr [JObj [(''type'', JStr ''SubTotalLineDetail''), (''name'', JNull),
                                        (''qty'', JNull), (''rate'', JNull), (''amount'', JNum 5)]])],
          JObj [(''customer'', JStr ''Ann''), (''customer_email'', JStr ''ann@example.com''),
                (''invoice_date'', JNull), (''invoice_due_date'', JNull),
                (''location_of_sale'', JNull), (''invoice_no'', JStr ''1002''),
                (''lines'', JArr [])]])])"
proof -
  have ok: "list_all customer_ok [ann]"
    "list_all invoice_ok [JObj unmatched_invoice, matched_invoice]"
    "unmatched [ann] (JObj unmatched_invoice)"
    by (simp_all add: ann_def matched_invoice_def unmatched_invoice_def customer_ok_def
        invoice_ok_def unmatched_def referenced_customer_def deciding_container_def
        line_items_def line_ok_def nested_ok_def get_or_null_def)
  have a: "answers (both_tokens_world (quickbooks (JArr [ann]) (JArr [JObj unmatched_invoice, matched_invoice])))
      (query_request (QuickBooksClient_init (JStr ''old'') (JStr ''123''))
         ''SELECT Id, DisplayName, PrimaryEmailAddr FROM Customer'') ''Customer'' [ann]"
    "answers (both_tokens_world (quickbooks (JArr [ann]) (JArr [JObj unmatched_invoice, matched_invoice])))
      (query_request (QuickBooksClient_init (JStr ''old'') (JStr ''123''))
         ''SELECT * FROM Invoice'') ''Invoice'' [JObj unmatched_invoice, matched_invoice]"
    by (simp_all add: answers_def quickbooks_def query_request_def query_result_def reply_def
        query_response_def response_json_def)
  show ?thesis
    using unmatched_customer_gives_nulls [OF both_tokens_client a ok(1,2)] ok
    by (simp add: run_handler ann_def matched_invoice_def unmatched_invoice_def)
qed

text \<open>
  C10. The joined handler raises on some well-formed upstream JSON: KeyError when a customer
  record has no Id key; AttributeError when the matched customer's PrimaryEmailAddr is
  present and null; AttributeError when a line's SalesItemLineDetail is present and null.
  With those keys absent instead (last conjunct), it returns entries with null values.
\<close>

theorem customer_invoices_raises:
  "fst (customer_invoices (both_tokens_world
      (quickbooks (JArr [JObj [(''DisplayName'', JStr ''Ann'')]]) (JArr []))))
     = Inl KeyError \<and>
   fst (customer_invoices (both_tokens_world
      (quickbooks (JArr [JObj [(''Id'', JStr ''1''), (''PrimaryEmailAddr'', JNull)]])
                  (JArr [JObj [(''CustomerRef'', JObj [(''value'', JStr ''1'')])]]))))
     = Inl AttributeError \<and>
   fst (customer_invoices (both_tokens_world
      (quickbooks (JArr []) (JArr [JObj [(''Line'', JArr [JObj [(''SalesItemLineDetail'', JNull)]])]]))))
     = Inl AttributeError \<and>
   fst (customer_invoices (both_tokens_world
      (quickbooks (JArr [JObj [(''Id'', JStr ''1'')]])
                  (JArr [JObj [(''CustomerRef'', JObj [(''value'', JStr ''1'')]),
                               (''Line'', JArr [JObj []])]]))))
     = Inr (JObj [(''customer_invoices'', JArr [JObj
         [(''customer'', JNull), (''customer_email'', JNull), (''invoice_date'', JNull),
          (''invoice_due_date'', JNull), (''location_of_sale'', JNull), (''invoice_no'', JNull),
          (''lines'', JArr [JObj [(''type'', JNull), (''name'', JNull), (''qty'', JNull),
                                  (''rate'', JNull), (''amount'', JNull)]])]])])"
  by (simp add: run_handler)

section \<open>Invoice creation\<close>

lemma required_error: "required conv kvs k = Inl e \<Longrightarrow> e = ValidationError"
  by (simp add: required_def split: option.splits)

lemma required_absent: "map_of kvs k = None \<Longrightarrow> required conv kvs k = Inl ValidationError"
  by (simp add: required_def)

lemma required_unconvertible:
  "map_of kvs k = Some v \<Longrightarrow> conv v = None \<Longrightarrow> required conv kvs k = Inl ValidationError"
  by (simp add: required_def)

lemma validate_line_missing:
  assumes "as_dict p l = Some lk" and "map_of lk ''Amount'' = None \<or> map_of lk ''DetailType'' = None"
  shows "\<exists>e. validate_line p l = Inl e"
proof -
  have "andThen (required (as_float p) lk ''Amount'') (\<lambda>amount.
          andThen (required (as_str p) lk ''DetailType'') (\<lambda>detail_type.
          andThen (optional (optional_required p) (as_dict p) lk ''SalesItemLineDetail'') (\<lambda>detail.
            Inr \<lparr>Amount = amount, DetailType = detail_type, SalesItemLineDetail = detail\<rparr>)))
        = Inl ValidationError"
    using assms(2)
  proof
    assume "map_of lk ''Amount'' = None"
    then show ?thesis by (simp add: required_absent)
  next
    assume "map_of lk ''DetailType'' = None"
    then show ?thesis
      by (intro andThen_error) (simp_all add: required_error required_absent)
  qed
  with assms(1) show ?thesis by (simp add: validate_line_def)
qed

lemma validate_invoice_missing:
  assumes "as_dict p payload = Some kvs"
    and "map_of kvs ''CustomerRef'' = None \<or> map_of kvs ''Line'' = None \<or>
         (\<exists>ls. map_of kvs ''Line'' = Some (JArr ls) \<and>
            (\<exists>l\<in>set ls. \<exists>lk. as_dict p l = Some lk \<and>
               (map_of lk ''Amount'' = None \<or> map_of lk ''DetailType'' = None)))"
  shows "validate_invoice p payload = Inl ValidationError"
proof -
  consider (a) "map_of kvs ''CustomerRef'' = None" | (b) "map_of kvs ''Line'' = None"
    | (c) ls where "map_of kvs ''Line'' = Some (JArr ls)"
        "\<exists>l\<in>set ls. \<exists>lk. as_dict p l = Some lk \<and>
           (map_of lk ''Amount'' = None \<or> map_of lk ''DetailType'' = None)"
    using assms(2) by (elim disjE exE conjE) simp_all
  then have "andThen (required (as_dict p) kvs ''CustomerRef'') (\<lambda>customer_ref.
          andThen (required (as_lines p) kvs ''Line'') (\<lambda>line.
          andThen (optional False (as_dict p) kvs ''BillEmail'') (\<lambda>bill_email.
          andThen (optional False (as_str p) kvs ''TxnDate'') (\<lambda>txn_date.
          andThen (optional False (as_str p) kvs ''DueDate'') (\<lambda>due_date.
            Inr \<lparr>CustomerRef = customer_ref, Line = line, BillEmail = bill_email,
                 TxnDate = txn_date, DueDate = due_date\<rparr>))))) = Inl ValidationError"
  proof cases
    case a
    then show ?thesis by (simp add: required_absent)
  next
    case b
    show ?thesis
      by (rule andThen_error) (simp_all add: required_error required_absent [OF b])
  next
    case c
    from c(2) obtain l lk where "l \<in> set ls" and "as_dict p l = Some lk"
      and "map_of lk ''Amount'' = None \<or> map_of lk ''DetailType'' = None"
      by (elim bexE exE conjE)
    then have "\<exists>l\<in>set ls. \<exists>e. validate_line p l = Inl e"
      by (intro bexI [of _ l] validate_line_missing)
    then have "\<exists>e. for_each (validate_line p) ls = Inl e"
      by (rule for_each_fails)
    then obtain e where "for_each (validate_line p) ls = Inl e" ..
    then have "as_lines p (JArr ls) = None" by simp
    then have "required (as_lines p) kvs ''Line'' = Inl ValidationError"
      using c(1) by (rule required_unconvertible [rotated])
    then show ?thesis
      by (intro andThen_error) (simp_all add: required_error)
  qed
  with assms(1) show ?thesis by (simp add: validate_invoice_def)
qed

lemma create_invoice_sends:
  assumes "get_qb_client w = Inr (Some qb)" and "net w (invoice_request qb invoice_data) = Inr r"
  shows "create_invoice invoice_data w =
     (if status_code r \<noteq> 200 \<and> status_code r \<noteq> 201 then Inr (error_body r) else response_json r,
      w\<lparr>sent := sent w @ [invoice_request qb invoice_data]\<rparr>)"
  using assms by (simp add: create_invoice_def requests_send_def)

lemma validate_minimal: "validate_invoice strict (JObj minimal_payload) = Inr minimal_invoice"
  by (simp add: validate_invoice_def validate_line_def required_def optional_def strict_def
      minimal_payload_def minimal_invoice_def)

lemma validate_no_lines:
  "validate_invoice p (JObj [(''CustomerRef'', JObj ref), (''Line'', JArr [])])
     = Inr \<lparr>CustomerRef = ref, Line = [], BillEmail = None, TxnDate = None, DueDate = None\<rparr>"
  by (simp add: validate_invoice_def required_def optional_def)

text \<open>A line whose Amount is an integer too large for a float is refused as well.\<close>

lemma validate_line_huge_amount:
  assumes "as_dict p l = Some lk" and "map_of lk ''Amount'' = Some (JNum n)" and "2 ^ 1024 \<le> \<bar>n\<bar>"
  shows "validate_line p l = Inl ValidationError"
proof -
  have "required (as_float p) lk ''Amount'' = Inl ValidationError"
    using assms(2) py_float_overflow [OF assms(3)] by (simp add: required_def)
  with assms(1) show ?thesis by (simp add: validate_line_def)
qed

text \<open>
  C7, as stated, fails for a body without line items: a body with a customer reference and
  an empty Line list passes the validation, the request is sent, and the provider's answer
  is returned.
\<close>

theorem empty_line_list_counterexample:
  "validate_invoice strict no_lines_payload = Inr no_lines_invoice \<and>
   sent (snd (post_create_invoice strict no_lines_payload
                (both_tokens_world (\<lambda>req. reply 200 ''{}'' (Some created_invoice)))))
     = [invoice_request (QuickBooksClient_init (JStr ''old'') (JStr ''123'')) no_lines_invoice] \<and>
   fst (post_create_invoice strict no_lines_payload
          (both_tokens_world (\<lambda>req. reply 200 ''{}'' (Some created_invoice))))
     = Inr created_invoice"
proof -
  have v: "validate_invoice strict no_lines_payload = Inr no_lines_invoice"
    by (simp add: no_lines_payload_def no_lines_invoice_def validate_no_lines)
  show ?thesis
    by (simp add: v post_create_invoice_def both_tokens_client reply_def response_json_def
        create_invoice_sends
          [where qb = "QuickBooksClient_init (JStr ''old'') (JStr ''123'')"
             and r = "\<lparr>status_code = 200, resp_text = ''{}'', resp_json = Some created_invoice\<rparr>"])
qed

text \<open>
  C7, amended. Whatever pydantic converts, a request body read as the mapping \<open>kvs\<close> is
  rejected by the schema validation when it lacks CustomerRef, lacks Line, or has a line
  item lacking Amount or DetailType; the state is then unchanged, so nothing was sent. A
  body whose Line is the empty list is not rejected for that: with a customer reference it
  validates. For a body that validates to \<open>invoice_data\<close>, with a client available, exactly
  the invoice request is sent; an answer with a status other than 200 and 201 yields
  \<^verbatim>\<open>{error: <raw body>}\<close>, and an answer with status 200 or 201 yields the provider's JSON
  as it is.
\<close>

theorem create_invoice_validates_then_forwards:
  "(\<forall>kvs. as_dict p payload = Some kvs \<and>
      (map_of kvs ''CustomerRef'' = None \<or> map_of kvs ''Line'' = None \<or>
       (\<exists>ls. map_of kvs ''Line'' = Some (JArr ls) \<and>
          (\<exists>l\<in>set ls. \<exists>lk. as_dict p l = Some lk \<and>
             (map_of lk ''Amount'' = None \<or> map_of lk ''DetailType'' = None)))) \<longrightarrow>
      post_create_invoice p payload w = (Inl ValidationError, w)) \<and>
   (\<forall>ref. validate_invoice p (JObj [(''CustomerRef'', JObj ref), (''Line'', JArr [])])
      = Inr \<lparr>CustomerRef = ref, Line = [], BillEmail = None, TxnDate = None, DueDate = None\<rparr>) \<and>
   (\<forall>invoice_data qb r.
      validate_invoice p payload = Inr invoice_data \<and> get_qb_client w = Inr (Some qb) \<and>
      net w (invoice_request qb invoice_data) = Inr r \<longrightarrow>
        sent (snd (post_create_invoice p payload w)) = sent w @ [invoice_request qb invoice_data] \<and>
        (status_code r \<noteq> 200 \<and> status_code r \<noteq> 201 \<longrightarrow>
           fst (post_create_invoice p payload w) = Inr (JObj [(''error'', JStr (resp_text r))])) \<and>
        (\<forall>created. (status_code r = 200 \<or> status_code r = 201) \<and> resp_json r = Some created \<longrightarrow>
           fst (post_create_invoice p payload w) = Inr created))"
proof (intro conjI allI impI)
  fix ref
  show "validate_invoice p (JObj [(''CustomerRef'', JObj ref), (''Line'', JArr [])])
      = Inr \<lparr>CustomerRef = ref, Line = [], BillEmail = None, TxnDate = None, DueDate = None\<rparr>"
    by (rule validate_no_lines)
next
  fix kvs
  assume "as_dict p payload = Some kvs \<and>
      (map_of kvs ''CustomerRef'' = None \<or> map_of kvs ''Line'' = None \<or>
       (\<exists>ls. map_of kvs ''Line'' = Some (JArr ls) \<and>
          (\<exists>l\<in>set ls. \<exists>lk. as_dict p l = Some lk \<and>
             (map_of lk ''Amount'' = None \<or> map_of lk ''DetailType'' = None))))"
  then have "validate_invoice p payload = Inl ValidationError"
    by (intro validate_invoice_missing [of p payload kvs]) simp_all
  then show "post_create_invoice p payload w = (Inl ValidationError, w)"
    by (simp add: post_create_invoice_def)
next
  fix invoice_data qb r
  assume "validate_invoice p payload = Inr invoice_data \<and> get_qb_client w = Inr (Some qb) \<and>
      net w (invoice_request qb invoice_data) = Inr r"
  then have run: "post_create_invoice p payload w =
     (if status_code r \<noteq> 200 \<and> status_code r \<noteq> 201 then Inr (error_body r) else response_json r,
      w\<lparr>sent := sent w @ [invoice_request qb invoice_data]\<rparr>)"
    by (simp add: post_create_invoice_def create_invoice_sends)
  show "sent (snd (post_create_invoice p payload w)) = sent w @ [invoice_request qb invoice_data]"
    by (simp add: run)
  {
    assume "status_code r \<noteq> 200 \<and> status_code r \<noteq> 201"
    then show "fst (post_create_invoice p payload w) = Inr (JObj [(''error'', JStr (resp_text r))])"
      by (simp add: run error_body_def)
  }
  {
    fix created
    assume "(status_code r = 200 \<or> status_code r = 201) \<and> resp_json r = Some created"
    then show "fst (post_create_invoice p payload w) = Inr created"
      by (auto simp: run response_json_def)
  }
qed

text \<open>
  A body without CustomerRef, a body whose line lacks DetailType, and the minimal body of
  the docstring answered with 400 and with 201.
\<close>

theorem create_invoice_validates_then_forwards_witness:
  "post_create_invoice strict (JObj [(''Line'', JArr [])]) (both_tokens_world unreachable)
     = (Inl ValidationError, both_tokens_world unreachable) \<and>
   post_create_invoice strict
       (JObj [(''CustomerRef'', JObj []), (''Line'', JArr [JObj [(''Amount'', JNum 1)]])])
       (both_tokens_world unreachable)
     = (Inl ValidationError, both_tokens_world unreachable) \<and>
   fst (post_create_invoice strict (JObj minimal_payload)
          (both_tokens_world (\<lambda>req. reply 400 ''bad request'' None)))
     = Inr (JObj [(''error'', JStr ''bad request'')]) \<and>
   fst (post_create_invoice strict (JObj minimal_payload)
          (both_tokens_world (\<lambda>req. reply 201 ''{}'' (Some (JObj [(''Invoice'', JObj [(''Id'', JStr ''7'')])])))))
     = Inr (JObj [(''Invoice'', JObj [(''Id'', JStr ''7'')])])"
  using create_invoice_validates_then_forwards
      [of strict "JObj [(''Line'', JArr [])]" "both_tokens_world unreachable"]
    create_invoice_validates_then_forwards
      [of strict "JObj [(''CustomerRef'', JObj []), (''Line'', JArr [JObj [(''Amount'', JNum 1)]])]"
          "both_tokens_world unreachable"]
    create_invoice_validates_then_forwards
      [of strict "JObj minimal_payload" "both_tokens_world (\<lambda>req. reply 400 ''bad request'' None)"]
    create_invoice_validates_then_forwards
      [of strict "JObj minimal_payload"
          "both_tokens_world (\<lambda>req. reply 201 ''{}'' (Some (JObj [(''Invoice'', JObj [(''Id'', JStr ''7'')])])))"]
  by (simp add: validate_minimal both_tokens_client reply_def)

end
